theory Spec2Isabelle
  imports Main
begin

section \<open>Python values used by the toolkit\<close>

text \<open>
  The toolkit (\<^verbatim>\<open>data_integration_toolkit.py\<close>, class \<^verbatim>\<open>HezbollahDataIntegrator\<close>) works
  on pandas tables whose text cells are either a string or missing (\<^verbatim>\<open>NaN\<close>).
  A Python string is a sequence of Unicode code points, modelled as a list of naturals;
  \<open>asc\<close> writes the literals of the program and of the examples.
\<close>

type_synonym ustring = "nat list"

definition asc :: "string \<Rightarrow> ustring" where
  "asc s = map of_char s"

lemma asc_eq_iff [simp]: "asc a = asc b \<longleftrightarrow> a = b"
  by (simp add: asc_def inj_map_eq_map inj_def)

datatype cell = NaN | Str ustring

datatype py_error = ValueError | TypeError

text \<open>
  What the toolkit takes from the Python runtime. The character tables of the
  interpreter (the Unicode database) are not part of the repository; above ASCII they are
  parameters: the upper-case mapping of a character (\<^verbatim>\<open>str.upper\<close>, one or more
  characters), whether it is whitespace (\<^verbatim>\<open>str.isspace\<close>, used by \<^verbatim>\<open>split\<close>,
  \<^verbatim>\<open>strip\<close> and \<^verbatim>\<open>int\<close>), whether it is a word character (\<^verbatim>\<open>\w\<close> of
  \<^verbatim>\<open>re\<close>), and its value as a decimal digit (used by \<^verbatim>\<open>int\<close>).
  \<open>int_max_str_digits\<close> is \<^verbatim>\<open>sys.get_int_max_str_digits()\<close>, 0 when the
  interpreter has no limit. On ASCII the functions below are fixed.
\<close>

record py_lib =
  u_upper :: "nat \<Rightarrow> nat list"
  u_space :: "nat \<Rightarrow> bool"
  u_word :: "nat \<Rightarrow> bool"
  u_decimal :: "nat \<Rightarrow> nat option"
  int_max_str_digits :: nat

text \<open>\<^verbatim>\<open>str.isspace\<close>; on ASCII: tab, LF, VT, FF, CR, FS, GS, RS, US and the blank.\<close>

definition is_space :: "py_lib \<Rightarrow> nat \<Rightarrow> bool" where
  "is_space L c = (if c < 128 then (9 \<le> c \<and> c \<le> 13) \<or> (28 \<le> c \<and> c \<le> 32) else u_space L c)"

text \<open>The word characters \<^verbatim>\<open>\w\<close> of \<^verbatim>\<open>re\<close>; on ASCII: digits, letters and the underscore.\<close>

definition is_word :: "py_lib \<Rightarrow> nat \<Rightarrow> bool" where
  "is_word L c =
     (if c < 128
      then (48 \<le> c \<and> c \<le> 57) \<or> (65 \<le> c \<and> c \<le> 90) \<or> c = 95 \<or> (97 \<le> c \<and> c \<le> 122)
      else u_word L c)"

text \<open>\<^verbatim>\<open>str.upper\<close> of one character; on ASCII the letters a to z are moved to A to Z.\<close>

definition upper_char :: "py_lib \<Rightarrow> nat \<Rightarrow> nat list" where
  "upper_char L c =
     (if c < 128 then [if 97 \<le> c \<and> c \<le> 122 then c - 32 else c] else u_upper L c)"

text \<open>\<^verbatim>\<open>s.upper()\<close>: character by character.\<close>

definition py_upper :: "py_lib \<Rightarrow> ustring \<Rightarrow> ustring" where
  "py_upper L s = concat (map (upper_char L) s)"

text \<open>\<^verbatim>\<open>s.strip()\<close>\<close>

definition py_strip :: "py_lib \<Rightarrow> ustring \<Rightarrow> ustring" where
  "py_strip L s = rev (dropWhile (is_space L) (rev (dropWhile (is_space L) s)))"

text \<open>\<^verbatim>\<open>s.split()\<close>: the maximal runs of non-whitespace characters, in order.\<close>

function py_split :: "py_lib \<Rightarrow> ustring \<Rightarrow> ustring list" where
  "py_split L [] = []"
| "py_split L (c # cs) =
     (if is_space L c then py_split L cs
      else (c # takeWhile (\<lambda>x. \<not> is_space L x) cs)
             # py_split L (dropWhile (\<lambda>x. \<not> is_space L x) cs))"
  by pat_completeness auto
termination
  by (relation "measure (\<lambda>(L, s). length s)") (auto simp: less_Suc_eq_le length_dropWhile_le)

text \<open>\<^verbatim>\<open>sep.join(ws)\<close>\<close>

fun py_join :: "ustring \<Rightarrow> ustring list \<Rightarrow> ustring" where
  "py_join sep [] = []"
| "py_join sep [w] = w"
| "py_join sep (w # v # ws) = w @ sep @ py_join sep (v # ws)"

text \<open>
  \<^verbatim>\<open>sorted(xs, key=k, reverse=True)\<close>: descending by key; Python's sort is stable also
  with \<^verbatim>\<open>reverse=True\<close>, so elements with equal keys keep their order.
\<close>

definition py_sorted_reverse :: "('a \<Rightarrow> int) \<Rightarrow> 'a list \<Rightarrow> 'a list" where
  "py_sorted_reverse k xs = sort_key (\<lambda>x. - k x) xs"

text \<open>
  A \<^verbatim>\<open>dict\<close> keeps its keys in insertion order; assigning to a key that is present
  replaces the value and leaves the key where it is.
\<close>

fun dict_set :: "'k \<Rightarrow> 'v \<Rightarrow> ('k \<times> 'v) list \<Rightarrow> ('k \<times> 'v) list" where
  "dict_set k v [] = [(k, v)]"
| "dict_set k v ((k', v') # d) = (if k' = k then (k', v) # d else (k', v') # dict_set k v d)"

definition dict_get :: "'k \<Rightarrow> ('k \<times> 'v) list \<Rightarrow> 'v option" where
  "dict_get k d = map_of d k"

text \<open>
  \<^verbatim>\<open>int(s)\<close> for a string, as the interpreter does it. First every character from
  code 127 on is replaced: whitespace by a blank, a decimal digit by its ASCII digit,
  anything else by a question mark; ASCII characters stay. Then the text is read as a
  C string: leading whitespace of C (tab, LF, VT, FF, CR and the blank, not FS to US), one
  sign, decimal digits with single underscores between digits, trailing whitespace of C.
  Anything else raises \<^verbatim>\<open>ValueError\<close>, and so do more digits than
  \<open>int_max_str_digits\<close> when that limit is set.
\<close>

definition is_digit :: "nat \<Rightarrow> bool" where
  "is_digit c = (48 \<le> c \<and> c \<le> 57)"

definition c_space :: "nat \<Rightarrow> bool" where
  "c_space c = ((9 \<le> c \<and> c \<le> 13) \<or> c = 32)"

definition to_ascii :: "py_lib \<Rightarrow> nat \<Rightarrow> nat" where
  "to_ascii L c =
     (if c < 127 then c
      else if is_space L c then 32
      else (case (if c < 128 then None else u_decimal L c) of
              Some d \<Rightarrow> if d \<le> 9 then 48 + d else 63
            | None \<Rightarrow> 63))"

fun int_body_ok :: "bool \<Rightarrow> ustring \<Rightarrow> bool" where
  "int_body_ok prev_digit [] = prev_digit"
| "int_body_ok prev_digit (c # cs) =
     (if is_digit c then int_body_ok True cs
      else if c = 95 \<and> prev_digit then int_body_ok False cs
      else False)"

fun digits_value :: "nat \<Rightarrow> ustring \<Rightarrow> nat" where
  "digits_value acc [] = acc"
| "digits_value acc (c # cs) =
     (if is_digit c then digits_value (10 * acc + (c - 48)) cs else digits_value acc cs)"

definition py_int :: "py_lib \<Rightarrow> ustring \<Rightarrow> py_error + int" where
  "py_int L s =
     (let t = dropWhile c_space (map (to_ascii L) s);
          neg = (t \<noteq> [] \<and> hd t = 45);
          rest = (if t \<noteq> [] \<and> (hd t = 45 \<or> hd t = 43) then tl t else t);
          body = rev (dropWhile c_space (rev rest))
      in if int_body_ok False body
            \<and> \<not> (0 < int_max_str_digits L \<and> int_max_str_digits L < length (filter is_digit body))
         then Inr (if neg then - int (digits_value 0 body) else int (digits_value 0 body))
         else Inl ValueError)"

section \<open>Reference tables\<close>

text \<open>
  The four tables read by \<^verbatim>\<open>__init__\<close>, one record per row, with the columns written by
  the parser. The identifier columns are integers; every other column is text or missing.
\<close>

record entity_row =
  uid :: int
  sdn_type :: "ustring option"
  first_name :: "ustring option"
  last_name :: "ustring option"
  title :: "ustring option"
  remarks :: "ustring option"

record alias_row =
  entity_uid :: int
  aka_uid :: int
  aka_type :: "ustring option"
  category :: "ustring option"
  first_name :: "ustring option"
  last_name :: "ustring option"

record address_row =
  entity_uid :: int
  address_uid :: int
  address1 :: "ustring option"
  address2 :: "ustring option"
  address3 :: "ustring option"
  city :: "ustring option"
  state_province :: "ustring option"
  postal_code :: "ustring option"
  country :: "ustring option"

record id_row =
  entity_uid :: int
  id_uid :: int
  id_type :: "ustring option"
  id_number :: "ustring option"
  id_country :: "ustring option"
  issue_date :: "ustring option"
  expiration_date :: "ustring option"

text \<open>The object \<^verbatim>\<open>self\<close>: the four tables and the name index built from them.\<close>

record integrator =
  entities :: "entity_row list"
  aliases :: "alias_row list"
  addresses :: "address_row list"
  ids :: "id_row list"
  name_index :: "(ustring \<times> int) list"

section \<open>Name index\<close>

text \<open>
  The key written by \<^verbatim>\<open>_build_name_index\<close> for one row:
  \<^verbatim>\<open>f"{first_name if pd.notna(first_name) else ''} {last_name}"\<close>, then
  \<^verbatim>\<open>.strip().upper()\<close>. A missing last name is formatted as \<^verbatim>\<open>nan\<close>.
\<close>

definition full_name :: "py_lib \<Rightarrow> ustring option \<Rightarrow> ustring option \<Rightarrow> ustring" where
  "full_name L fn ln =
     py_upper L (py_strip L ((case fn of None \<Rightarrow> [] | Some f \<Rightarrow> f) @ asc '' '' @
                             (case ln of None \<Rightarrow> asc ''nan'' | Some l \<Rightarrow> l)))"

fun index_entities :: "py_lib \<Rightarrow> entity_row list \<Rightarrow> (ustring \<times> int) list \<Rightarrow> (ustring \<times> int) list" where
  "index_entities L [] names = names"
| "index_entities L (entity # rest) names =
     index_entities L rest
       (dict_set (full_name L (entity_row.first_name entity) (entity_row.last_name entity))
                 (entity_row.uid entity) names)"

fun index_aliases :: "py_lib \<Rightarrow> alias_row list \<Rightarrow> (ustring \<times> int) list \<Rightarrow> (ustring \<times> int) list" where
  "index_aliases L [] names = names"
| "index_aliases L (a # rest) names =
     index_aliases L rest
       (dict_set (full_name L (alias_row.first_name a) (alias_row.last_name a))
                 (alias_row.entity_uid a) names)"

definition build_name_index :: "py_lib \<Rightarrow> entity_row list \<Rightarrow> alias_row list \<Rightarrow> (ustring \<times> int) list" where
  "build_name_index L es als = index_aliases L als (index_entities L es [])"

text \<open>\<^verbatim>\<open>__init__\<close>, given the four tables already read.\<close>

definition init :: "py_lib \<Rightarrow> entity_row list \<Rightarrow> alias_row list \<Rightarrow> address_row list \<Rightarrow> id_row list \<Rightarrow> integrator" where
  "init L es als ads is =
     \<lparr>entities = es, aliases = als, addresses = ads, ids = is,
      name_index = build_name_index L es als\<rparr>"

section \<open>Normalizer\<close>

text \<open>
  \<^verbatim>\<open>re.sub(r'\b(MR|MRS|MS|DR|PROF|SR|JR)\b\.?', '', name)\<close>, read from left to right.
  \<open>match_alt\<close> tries the alternatives in their order at one position: an alternative
  matches when the text starts with it and a word boundary follows, that is, the text ends
  there or goes on with a non-word character. It returns the text after the title.
\<close>

definition titles :: "ustring list" where
  "titles = map asc [''MR'', ''MRS'', ''MS'', ''DR'', ''PROF'', ''SR'', ''JR'']"

fun match_alt :: "py_lib \<Rightarrow> ustring list \<Rightarrow> ustring \<Rightarrow> ustring option" where
  "match_alt L [] s = None"
| "match_alt L (t # ts) s =
     (let rest = drop (length t) s in
      if take (length t) s = t \<and> (rest = [] \<or> \<not> is_word L (hd rest)) then Some rest
      else match_alt L ts s)"

lemma match_alt_shorter:
  "match_alt L ts s = Some rest \<Longrightarrow> \<forall>t \<in> set ts. t \<noteq> [] \<Longrightarrow> s \<noteq> [] \<Longrightarrow> length rest < length s"
  by (induction ts) (auto simp: Let_def split: if_splits)

lemma titles_nonempty: "\<forall>t \<in> set titles. t \<noteq> []"
  by (simp add: titles_def asc_def)

text \<open>
  The scan carries \<open>pw\<close>: whether the character before the current position (in the text
  being scanned) is a word character. Every title starts with a letter, so a match can
  only start where a word begins. A match is dropped together with one directly
  following period (code 46); the next match is searched after it.
\<close>

function re_sub_titles :: "py_lib \<Rightarrow> bool \<Rightarrow> ustring \<Rightarrow> ustring" where
  "re_sub_titles L pw [] = []"
| "re_sub_titles L pw (c # cs) =
     (if \<not> pw \<and> is_word L c then
        (case match_alt L titles (c # cs) of
           Some rest \<Rightarrow>
             (if rest \<noteq> [] \<and> hd rest = 46 then re_sub_titles L False (tl rest)
              else re_sub_titles L True rest)
         | None \<Rightarrow> c # re_sub_titles L True cs)
      else c # re_sub_titles L (is_word L c) cs)"
  by pat_completeness auto
termination
proof (relation "measure (\<lambda>(L, pw, s). length s)")
  show "wf (measure (\<lambda>(L, pw, s). length s))" by simp
next
  fix L pw c cs rest
  assume "match_alt L titles (c # cs) = Some rest"
  then have "length rest < length (c # cs)"
    using match_alt_shorter titles_nonempty by blast
  then show "((L, False, tl rest), (L, pw, c # cs)) \<in> measure (\<lambda>(L, pw, s). length s)"
    by simp
next
  fix L pw c cs rest
  assume "match_alt L titles (c # cs) = Some rest"
  then have "length rest < length (c # cs)"
    using match_alt_shorter titles_nonempty by blast
  then show "((L, True, rest), (L, pw, c # cs)) \<in> measure (\<lambda>(L, pw, s). length s)"
    by simp
qed auto

text \<open>\<^verbatim>\<open>normalize_name\<close>: a missing name gives the empty string.\<close>

definition normalize_name :: "py_lib \<Rightarrow> cell \<Rightarrow> ustring" where
  "normalize_name L name =
     (case name of
        NaN \<Rightarrow> []
      | Str s \<Rightarrow> py_join (asc '' '') (py_split L (re_sub_titles L False (py_upper L s))))"

text \<open>
  Whether the scan, started with \<open>pw\<close>, meets a title: a word that begins at the
  current or a later position and is one of the titles.
\<close>

fun has_title :: "py_lib \<Rightarrow> bool \<Rightarrow> ustring \<Rightarrow> bool" where
  "has_title L pw [] = False"
| "has_title L pw (c # cs) =
     ((\<not> pw \<and> is_word L c \<and> takeWhile (is_word L) (c # cs) \<in> set titles)
      \<or> has_title L (is_word L c) cs)"

text \<open>
  The two properties of the interpreter's character tables that the normalizer relies
  on: a character produced by \<^verbatim>\<open>upper\<close> is its own upper case, and a whitespace
  character is no word character.
\<close>

definition tables_ok :: "py_lib \<Rightarrow> bool" where
  "tables_ok L \<longleftrightarrow>
     (\<forall>c d. 128 \<le> c \<and> d \<in> set (u_upper L c) \<longrightarrow> upper_char L d = [d])
     \<and> (\<forall>c. 128 \<le> c \<and> u_space L c \<longrightarrow> \<not> u_word L c)"

section \<open>Matcher\<close>

definition exact_match :: "py_lib \<Rightarrow> integrator \<Rightarrow> cell \<Rightarrow> int option" where
  "exact_match L self name = dict_get (normalize_name L name) (name_index self)"

record match_result =
  uid :: int
  ofac_name :: ustring
  input_name :: cell
  match_score :: int

text \<open>
  The loop of \<^verbatim>\<open>fuzzy_match\<close> over \<^verbatim>\<open>name_index.items()\<close>. The score
  \<^verbatim>\<open>fuzz.ratio\<close> comes from the fuzzywuzzy library and is a parameter here.
\<close>

fun fuzzy_scan :: "(ustring \<Rightarrow> ustring \<Rightarrow> int) \<Rightarrow> ustring \<Rightarrow> cell \<Rightarrow> int \<Rightarrow> (ustring \<times> int) list \<Rightarrow> match_result list" where
  "fuzzy_scan ratio normalized name threshold [] = []"
| "fuzzy_scan ratio normalized name threshold ((key, u) # items) =
     (let score = ratio normalized key in
      if score \<ge> threshold
      then \<lparr>match_result.uid = u, ofac_name = key, input_name = name, match_score = score\<rparr>
             # fuzzy_scan ratio normalized name threshold items
      else fuzzy_scan ratio normalized name threshold items)"

definition fuzzy_match :: "py_lib \<Rightarrow> (ustring \<Rightarrow> ustring \<Rightarrow> int) \<Rightarrow> integrator \<Rightarrow> cell \<Rightarrow> int \<Rightarrow> match_result list" where
  "fuzzy_match L ratio self name threshold =
     py_sorted_reverse match_result.match_score
       (fuzzy_scan ratio (normalize_name L name) name threshold (name_index self))"

text \<open>The match result that the loop of \<^verbatim>\<open>fuzzy_match\<close> appends for an index entry it retains.\<close>

definition mk_match :: "py_lib \<Rightarrow> (ustring \<Rightarrow> ustring \<Rightarrow> int) \<Rightarrow> cell \<Rightarrow> ustring \<times> int \<Rightarrow> match_result" where
  "mk_match L ratio name ku =
     \<lparr>match_result.uid = snd ku, ofac_name = fst ku, input_name = name,
      match_score = ratio (normalize_name L name) (fst ku)\<rparr>"

section \<open>Location lookup\<close>

text \<open>
  \<^verbatim>\<open>Series.str.contains(pat, case=False, na=False)\<close> belongs to pandas and is a
  parameter: for the pattern argument it either raises, or gives the test applied to every
  text cell. A missing cell never matches (\<^verbatim>\<open>na=False\<close>).
\<close>

type_synonym contains_fn = "cell \<Rightarrow> py_error + (ustring \<Rightarrow> bool)"

definition str_contains :: "contains_fn \<Rightarrow> cell \<Rightarrow> ('r \<Rightarrow> ustring option) \<Rightarrow> 'r list \<Rightarrow> py_error + 'r list" where
  "str_contains contains pat col rows =
     (case contains pat of
        Inl e \<Rightarrow> Inl e
      | Inr m \<Rightarrow> Inr (filter (\<lambda>r. case col r of None \<Rightarrow> False | Some s \<Rightarrow> m s) rows))"

text \<open>Truth value of an optional argument: \<^verbatim>\<open>None\<close> and \<^verbatim>\<open>''\<close> are false, \<^verbatim>\<open>NaN\<close> is true.\<close>

definition truthy_cell :: "cell option \<Rightarrow> bool" where
  "truthy_cell a = (case a of None \<Rightarrow> False | Some NaN \<Rightarrow> True | Some (Str s) \<Rightarrow> s \<noteq> [])"

definition search_by_location :: "contains_fn \<Rightarrow> integrator \<Rightarrow> cell option \<Rightarrow> cell option \<Rightarrow> py_error + address_row list" where
  "search_by_location contains self country_arg city_arg =
     (case (case country_arg of
              Some pat \<Rightarrow> if truthy_cell country_arg
                           then str_contains contains pat address_row.country (addresses self)
                           else Inr (addresses self)
            | None \<Rightarrow> Inr (addresses self)) of
        Inl e \<Rightarrow> Inl e
      | Inr results \<Rightarrow>
          (case city_arg of
             Some pat \<Rightarrow> if truthy_cell city_arg
                          then str_contains contains pat address_row.city results
                          else Inr results
           | None \<Rightarrow> Inr results))"

section \<open>Profile assembly\<close>

datatype uid_arg = UInt int | UStr ustring

record profile =
  uid :: int
  basic_info :: entity_row
  aliases :: "alias_row list"
  addresses :: "address_row list"
  ids :: "id_row list"

definition get_entity_profile :: "py_lib \<Rightarrow> integrator \<Rightarrow> uid_arg \<Rightarrow> py_error + profile option" where
  "get_entity_profile L self uid_in =
     (case (case uid_in of UStr s \<Rightarrow> py_int L s | UInt n \<Rightarrow> Inr n) of
        Inl e \<Rightarrow> Inl e
      | Inr u \<Rightarrow>
          (case filter (\<lambda>e. entity_row.uid e = u) (entities self) of
             [] \<Rightarrow> Inr None
           | entity # _ \<Rightarrow>
               Inr (Some \<lparr>profile.uid = u,
                          basic_info = entity,
                          aliases = filter (\<lambda>a. alias_row.entity_uid a = u) (integrator.aliases self),
                          addresses = filter (\<lambda>a. address_row.entity_uid a = u) (integrator.addresses self),
                          ids = filter (\<lambda>a. id_row.entity_uid a = u) (integrator.ids self)\<rparr>)))"

section \<open>Batch resolution\<close>

text \<open>\<^verbatim>\<open>if uid:\<close> on the result of \<^verbatim>\<open>exact_match\<close>: \<^verbatim>\<open>None\<close> and \<^verbatim>\<open>0\<close> are false.\<close>

definition truthy_uid :: "int option \<Rightarrow> bool" where
  "truthy_uid u = (case u of None \<Rightarrow> False | Some n \<Rightarrow> n \<noteq> 0)"

text \<open>One row of the table returned by \<^verbatim>\<open>batch_search_names\<close>; a key that a row does not set is \<open>None\<close>.\<close>

record batch_row =
  input_name :: cell
  match_type :: string
  uid :: "int option"
  ofac_name :: "ustring option"
  match_score :: int

fun batch_search_names :: "py_lib \<Rightarrow> (ustring \<Rightarrow> ustring \<Rightarrow> int) \<Rightarrow> integrator \<Rightarrow> cell list \<Rightarrow> bool \<Rightarrow> int \<Rightarrow> batch_row list" where
  "batch_search_names L ratio self [] fuzzy threshold = []"
| "batch_search_names L ratio self (name # names_list) fuzzy threshold =
     (let u = exact_match L self name in
      if truthy_uid u then
        \<lparr>batch_row.input_name = name, match_type = ''exact'', uid = u, ofac_name = None,
         match_score = 100\<rparr> # batch_search_names L ratio self names_list fuzzy threshold
      else if fuzzy then
        (case fuzzy_match L ratio self name threshold of
           m # _ \<Rightarrow>
             \<lparr>batch_row.input_name = name, match_type = ''fuzzy'',
              uid = Some (match_result.uid m), ofac_name = Some (match_result.ofac_name m),
              match_score = match_result.match_score m\<rparr>
               # batch_search_names L ratio self names_list fuzzy threshold
         | [] \<Rightarrow>
             \<lparr>batch_row.input_name = name, match_type = ''no_match'', uid = None, ofac_name = None,
              match_score = 0\<rparr> # batch_search_names L ratio self names_list fuzzy threshold)
      else batch_search_names L ratio self names_list fuzzy threshold)"

text \<open>
  One row of the table returned by \<^verbatim>\<open>process_new_source\<close>. A source row maps column
  names to cells; a source table is the list of its rows with their index labels.
\<close>

record source_result =
  source_row :: int
  ofac_match :: "string option"
  ofac_uid :: "int option"
  match_score :: "int option"
  confidence :: "string option"
  location_matches :: "nat option"

type_synonym source_row = "string \<rightharpoonup> cell"

datatype source_data = Frame "(int \<times> source_row) list" | Dict source_row

text \<open>The block under \<^verbatim>\<open># Name matching\<close> of the loop body.\<close>

definition name_matching :: "py_lib \<Rightarrow> (ustring \<Rightarrow> ustring \<Rightarrow> int) \<Rightarrow> integrator \<Rightarrow> string option \<Rightarrow> source_row \<Rightarrow> source_result \<Rightarrow> source_result" where
  "name_matching L ratio self name_column row result =
     (case name_column of
        None \<Rightarrow> result
      | Some col \<Rightarrow>
          if col = [] then result
          else (case row col of
                  None \<Rightarrow> result
                | Some name \<Rightarrow>
                    (let u = exact_match L self name in
                     if truthy_uid u then
                       result\<lparr>ofac_match := Some ''exact'', ofac_uid := u, confidence := Some ''high''\<rparr>
                     else
                       (case fuzzy_match L ratio self name 80 of
                          m # _ \<Rightarrow>
                            result\<lparr>ofac_match := Some ''fuzzy'',
                                   ofac_uid := Some (match_result.uid m),
                                   source_result.match_score := Some (match_result.match_score m),
                                   confidence := Some (if match_result.match_score m > 85
                                                       then ''medium'' else ''low'')\<rparr>
                        | [] \<Rightarrow>
                            result\<lparr>ofac_match := Some ''none'', confidence := Some ''new_entity''\<rparr>))))"

text \<open>The block under \<^verbatim>\<open># Location matching\<close> of the loop body.\<close>

definition location_matching :: "contains_fn \<Rightarrow> integrator \<Rightarrow> string option \<Rightarrow> source_row \<Rightarrow> source_result \<Rightarrow> py_error + source_result" where
  "location_matching contains self location_column row result =
     (case location_column of
        None \<Rightarrow> Inr result
      | Some col \<Rightarrow>
          if col = [] then Inr result
          else (case row col of
                  None \<Rightarrow> Inr result
                | Some location \<Rightarrow>
                    (case search_by_location contains self (Some location) None of
                       Inl e \<Rightarrow> Inl e
                     | Inr loc_matches \<Rightarrow>
                         if length loc_matches > 0
                         then Inr (result\<lparr>location_matches := Some (length loc_matches)\<rparr>)
                         else Inr result)))"

definition process_row :: "py_lib \<Rightarrow> (ustring \<Rightarrow> ustring \<Rightarrow> int) \<Rightarrow> contains_fn \<Rightarrow> integrator \<Rightarrow> string option \<Rightarrow> string option \<Rightarrow> int \<times> source_row \<Rightarrow> py_error + source_result" where
  "process_row L ratio contains self name_column location_column ir =
     location_matching contains self location_column (snd ir)
       (name_matching L ratio self name_column (snd ir)
          \<lparr>source_row = fst ir, ofac_match = None, ofac_uid = None, match_score = None,
           confidence = None, location_matches = None\<rparr>)"

text \<open>The loop over \<^verbatim>\<open>data.iterrows()\<close>; an exception in a row ends the call.\<close>

fun process_rows :: "py_lib \<Rightarrow> (ustring \<Rightarrow> ustring \<Rightarrow> int) \<Rightarrow> contains_fn \<Rightarrow> integrator \<Rightarrow> string option \<Rightarrow> string option \<Rightarrow> (int \<times> source_row) list \<Rightarrow> source_result list \<Rightarrow> py_error + source_result list" where
  "process_rows L ratio contains self name_column location_column [] results = Inr results"
| "process_rows L ratio contains self name_column location_column (ir # rest) results =
     (case process_row L ratio contains self name_column location_column ir of
        Inl e \<Rightarrow> Inl e
      | Inr result \<Rightarrow>
          process_rows L ratio contains self name_column location_column rest (results @ [result]))"

text \<open>\<^verbatim>\<open>if isinstance(data, dict): data = pd.DataFrame([data])\<close>: one row, labelled 0.\<close>

definition as_frame :: "source_data \<Rightarrow> (int \<times> source_row) list" where
  "as_frame data = (case data of Dict d \<Rightarrow> [(0, d)] | Frame rows \<Rightarrow> rows)"

definition process_new_source :: "py_lib \<Rightarrow> (ustring \<Rightarrow> ustring \<Rightarrow> int) \<Rightarrow> contains_fn \<Rightarrow> integrator \<Rightarrow> source_data \<Rightarrow> string option \<Rightarrow> string option \<Rightarrow> py_error + source_result list" where
  "process_new_source L ratio contains self data name_column location_column =
     process_rows L ratio contains self name_column location_column (as_frame data) []"

section \<open>Example data\<close>

text \<open>
  An instance of the runtime for the examples: the interpreter's tables on the code
  points below 256 (the two Latin-1 spaces, the Latin-1 letters and their upper case, no
  decimal digit), every code point from 256 on taken as a caseless symbol, and the usual
  limit of 4300 digits.
\<close>

definition sample_lib :: py_lib where
  "sample_lib =
     \<lparr>u_upper = (\<lambda>c. if c = 181 then [924] else if c = 223 then [83, 83]
                       else if c = 255 then [376]
                       else if 224 \<le> c \<and> c \<le> 254 \<and> c \<noteq> 247 then [c - 32] else [c]),
      u_space = (\<lambda>c. c = 133 \<or> c = 160),
      u_word = (\<lambda>c. c = 170 \<or> c = 178 \<or> c = 179 \<or> c = 181 \<or> c = 185 \<or> c = 186
                      \<or> (188 \<le> c \<and> c \<le> 190)
                      \<or> (192 \<le> c \<and> c \<le> 255 \<and> c \<noteq> 215 \<and> c \<noteq> 247)),
      u_decimal = (\<lambda>c. None),
      int_max_str_digits = 4300\<rparr>"

text \<open>
  A small reference population used to run the definitions: the entity Ali Hassan with
  the alias Ali Hasan, an entity whose first name carries a title, an entity with
  identifier 0, and rows of the related tables that belong to no entity (999).
\<close>

definition sample_entities :: "entity_row list" where
  "sample_entities =
     [\<lparr>entity_row.uid = 100, sdn_type = Some (asc ''Individual''), first_name = Some (asc ''Ali''),
       last_name = Some (asc ''Hassan''), title = None, remarks = None\<rparr>,
      \<lparr>entity_row.uid = 7, sdn_type = Some (asc ''Individual''), first_name = Some (asc ''Dr.''),
       last_name = Some (asc ''Jane Doe''), title = None, remarks = None\<rparr>,
      \<lparr>entity_row.uid = 0, sdn_type = Some (asc ''Entity''), first_name = None,
       last_name = Some (asc ''Cedar Trading''), title = None, remarks = None\<rparr>]"

definition sample_aliases :: "alias_row list" where
  "sample_aliases =
     [\<lparr>alias_row.entity_uid = 100, aka_uid = 1, aka_type = Some (asc ''a.k.a.''),
       category = Some (asc ''strong''), first_name = Some (asc ''Ali''),
       last_name = Some (asc ''Hasan'')\<rparr>,
      \<lparr>alias_row.entity_uid = 999, aka_uid = 2, aka_type = Some (asc ''a.k.a.''),
       category = Some (asc ''weak''), first_name = None, last_name = Some (asc ''Nobody'')\<rparr>]"

definition sample_addresses :: "address_row list" where
  "sample_addresses =
     [\<lparr>address_row.entity_uid = 100, address_uid = 11, address1 = None, address2 = None,
       address3 = None, city = Some (asc ''Beirut''), state_province = None, postal_code = None,
       country = Some (asc ''Lebanon'')\<rparr>,
      \<lparr>address_row.entity_uid = 999, address_uid = 12, address1 = None, address2 = None,
       address3 = None, city = Some (asc ''Maicao''), state_province = None, postal_code = None,
       country = Some (asc ''Colombia'')\<rparr>,
      \<lparr>address_row.entity_uid = 100, address_uid = 13, address1 = None, address2 = None,
       address3 = None, city = None, state_province = None, postal_code = None,
       country = None\<rparr>]"

definition sample_ids :: "id_row list" where
  "sample_ids =
     [\<lparr>id_row.entity_uid = 999, id_uid = 21, id_type = Some (asc ''Passport''),
       id_number = Some (asc ''X1''), id_country = None, issue_date = None,
       expiration_date = None\<rparr>,
      \<lparr>id_row.entity_uid = 100, id_uid = 22, id_type = Some (asc ''Passport''),
       id_number = Some (asc ''RL0000''), id_country = Some (asc ''Lebanon''), issue_date = None,
       expiration_date = None\<rparr>]"

definition sample :: integrator where
  "sample = init sample_lib sample_entities sample_aliases sample_addresses sample_ids"

text \<open>A source table with a name column and a location column.\<close>

definition sample_source :: source_data where
  "sample_source =
     Frame [(0, [''Name'' \<mapsto> Str (asc ''Ali Hassan''), ''Country'' \<mapsto> Str (asc ''Brazil'')]),
            (1, [''Name'' \<mapsto> Str (asc ''Ali Hassen''), ''Country'' \<mapsto> Str (asc ''lebanon'')]),
            (2, [''Name'' \<mapsto> NaN, ''Country'' \<mapsto> Str (asc ''Colombia'')])]"

text \<open>The rows that \<^verbatim>\<open>process_new_source\<close> returns for it (see \<open>sample_source_rows\<close>).\<close>

definition sample_results :: "source_result list" where
  "sample_results =
     [\<lparr>source_row = 0, ofac_match = Some ''exact'', ofac_uid = Some 100, match_score = None,
       confidence = Some ''high'', location_matches = None\<rparr>,
      \<lparr>source_row = 1, ofac_match = Some ''fuzzy'', ofac_uid = Some 100, match_score = Some 90,
       confidence = Some ''medium'', location_matches = Some 1\<rparr>,
      \<lparr>source_row = 2, ofac_match = Some ''none'', ofac_uid = None, match_score = None,
       confidence = Some ''new_entity'', location_matches = Some 1\<rparr>]"

text \<open>A source table with a row that names the entity with identifier 0, and its result.\<close>

definition sample_source_zero :: source_data where
  "sample_source_zero =
     Frame [(0, [''Name'' \<mapsto> Str (asc ''Ali Hassan''), ''Country'' \<mapsto> Str (asc ''Brazil'')]),
            (1, [''Name'' \<mapsto> Str (asc ''Cedar Trading''), ''Country'' \<mapsto> Str (asc ''lebanon'')])]"

definition sample_results_zero :: "source_result list" where
  "sample_results_zero =
     [\<lparr>source_row = 0, ofac_match = Some ''exact'', ofac_uid = Some 100, match_score = None,
       confidence = Some ''high'', location_matches = None\<rparr>,
      \<lparr>source_row = 1, ofac_match = Some ''fuzzy'', ofac_uid = Some 0, match_score = Some 100,
       confidence = Some ''medium'', location_matches = Some 1\<rparr>]"

text \<open>
  A stand-in for \<^verbatim>\<open>fuzz.ratio\<close> in the examples: the share of positions at which the
  two strings agree, in percent of their mean length; 0 when one of them is empty.
\<close>

definition sample_ratio :: "ustring \<Rightarrow> ustring \<Rightarrow> int" where
  "sample_ratio a b =
     (if a = [] \<or> b = [] then 0
      else int (200 * length (filter (\<lambda>xy. fst xy = snd xy) (zip a b)) div (length a + length b)))"

text \<open>
  A stand-in for the pandas matcher in the examples: a missing pattern raises, a string
  pattern is searched literally, ignoring case.
\<close>

fun has_substring :: "ustring \<Rightarrow> ustring \<Rightarrow> bool" where
  "has_substring p [] = (p = [])"
| "has_substring p (c # cs) = (take (length p) (c # cs) = p \<or> has_substring p cs)"

definition sample_contains :: contains_fn where
  "sample_contains pat =
     (case pat of
        NaN \<Rightarrow> Inl TypeError
      | Str p \<Rightarrow> Inr (\<lambda>s. has_substring (py_upper sample_lib p) (py_upper sample_lib s)))"

section \<open>Facts about the example data\<close>

lemma sample_index:
  "name_index sample =
     [(asc ''ALI HASSAN'', 100), (asc ''DR. JANE DOE'', 7), (asc ''CEDAR TRADING'', 0),
      (asc ''ALI HASAN'', 100), (asc ''NOBODY'', 999)]"
  by code_simp

lemma sample_tables:
  "entities sample = sample_entities" "integrator.aliases sample = sample_aliases"
  "integrator.addresses sample = sample_addresses" "integrator.ids sample = sample_ids"
  by (simp_all add: sample_def init_def)

section \<open>Matcher: exact lookup\<close>

lemma fuzzy_scan_eq:
  "fuzzy_scan ratio n name t items =
     map (\<lambda>ku. \<lparr>match_result.uid = snd ku, ofac_name = fst ku, input_name = name,
                 match_score = ratio n (fst ku)\<rparr>)
         (filter (\<lambda>ku. t \<le> ratio n (fst ku)) items)"
  by (induction items) (auto simp: Let_def)

lemma set_py_sorted_reverse [simp]: "set (py_sorted_reverse k xs) = set xs"
  by (simp add: py_sorted_reverse_def)

text \<open>
  C4. A name whose normalized form is a key of the index is resolved by \<open>exact_match\<close>
  to the identifier stored under that key; a name whose normalized form is no key of the
  index gives the absent result. Both lookups are total: an unmatched name gives \<open>None\<close>
  from \<open>exact_match\<close> and the empty list from \<open>fuzzy_match\<close>, never an error.
\<close>

theorem exact_match_lookup:
  "(distinct (map fst (name_index self)) \<and> (normalize_name L name, u) \<in> set (name_index self)
      \<longrightarrow> exact_match L self name = Some u)
   \<and> (normalize_name L name \<notin> fst ` set (name_index self) \<longrightarrow> exact_match L self name = None)
   \<and> ((\<forall>ku \<in> set (name_index self). ratio (normalize_name L name) (fst ku) < threshold)
      \<longrightarrow> fuzzy_match L ratio self name threshold = [])"
proof (intro conjI impI)
  assume "distinct (map fst (name_index self)) \<and> (normalize_name L name, u) \<in> set (name_index self)"
  then show "exact_match L self name = Some u"
    by (simp add: exact_match_def dict_get_def)
next
  assume "normalize_name L name \<notin> fst ` set (name_index self)"
  then show "exact_match L self name = None"
    by (simp add: exact_match_def dict_get_def map_of_eq_None_iff)
next
  assume "\<forall>ku \<in> set (name_index self). ratio (normalize_name L name) (fst ku) < threshold"
  then have "filter (\<lambda>ku. threshold \<le> ratio (normalize_name L name) (fst ku)) (name_index self) = []"
    by (auto simp: filter_empty_conv)
  then show "fuzzy_match L ratio self name threshold = []"
    by (simp add: fuzzy_match_def fuzzy_scan_eq py_sorted_reverse_def)
qed

theorem exact_match_lookup_witness:
  "distinct (map fst (name_index sample))
   \<and> (normalize_name sample_lib (Str (asc ''ali hasan'')), 100) \<in> set (name_index sample)
   \<and> exact_match sample_lib sample (Str (asc ''ali hasan'')) = Some 100
   \<and> normalize_name sample_lib (Str (asc ''Unrelated Person'')) \<notin> fst ` set (name_index sample)
   \<and> exact_match sample_lib sample (Str (asc ''Unrelated Person'')) = None
   \<and> list_all (\<lambda>ku. sample_ratio (normalize_name sample_lib (Str (asc ''Unrelated Person''))) (fst ku) < 80)
        (name_index sample)
   \<and> fuzzy_match sample_lib sample_ratio sample (Str (asc ''Unrelated Person'')) 80 = []"
proof -
  have n1: "normalize_name sample_lib (Str (asc ''ali hasan'')) = asc ''ALI HASAN''" by code_simp
  have n2: "normalize_name sample_lib (Str (asc ''Unrelated Person'')) = asc ''UNRELATED PERSON''" by code_simp
  have h1: "distinct (map fst (name_index sample))
            \<and> (normalize_name sample_lib (Str (asc ''ali hasan'')), 100) \<in> set (name_index sample)"
    by (simp add: sample_index n1)
  have h2: "normalize_name sample_lib (Str (asc ''Unrelated Person'')) \<notin> fst ` set (name_index sample)"
    by (simp add: sample_index n2)
  have h3': "list_all (\<lambda>ku. sample_ratio (normalize_name sample_lib (Str (asc ''Unrelated Person''))) (fst ku) < 80)
        (name_index sample)"
    by code_simp
  then have h3: "\<forall>ku \<in> set (name_index sample).
              sample_ratio (normalize_name sample_lib (Str (asc ''Unrelated Person''))) (fst ku) < 80"
    by (simp only: list_all_iff)
  from exact_match_lookup [where self = sample and L = sample_lib
      and name = "Str (asc ''ali hasan'')" and u = 100] h1
  have c1: "exact_match sample_lib sample (Str (asc ''ali hasan'')) = Some 100" by blast
  from exact_match_lookup [where self = sample and L = sample_lib
      and name = "Str (asc ''Unrelated Person'')" and ratio = sample_ratio and threshold = 80] h2 h3
  have c2: "exact_match sample_lib sample (Str (asc ''Unrelated Person'')) = None"
    and c3: "fuzzy_match sample_lib sample_ratio sample (Str (asc ''Unrelated Person'')) 80 = []" by blast+
  from h1 h2 h3' c1 c2 c3 show ?thesis by blast
qed

section \<open>Profile assembly: the join\<close>

text \<open>
  C6. For an identifier that occurs in the entity table, \<open>get_entity_profile\<close> returns a
  profile of that identifier whose basic information is the first entity row carrying it
  and whose aliases, addresses and identity documents are exactly the rows of the
  respective tables with that \<open>entity_uid\<close>, in table order. For an identifier that
  does not occur in the entity table it returns the absent profile, whatever the related
  tables contain.
\<close>

theorem get_entity_profile_join:
  "(u \<in> entity_row.uid ` set (entities self) \<longrightarrow>
      (\<exists>p. get_entity_profile L self (UInt u) = Inr (Some p)
          \<and> profile.uid p = u
          \<and> basic_info p \<in> set (entities self) \<and> entity_row.uid (basic_info p) = u
          \<and> profile.aliases p = filter (\<lambda>a. alias_row.entity_uid a = u) (integrator.aliases self)
          \<and> profile.addresses p = filter (\<lambda>a. address_row.entity_uid a = u) (integrator.addresses self)
          \<and> profile.ids p = filter (\<lambda>a. id_row.entity_uid a = u) (integrator.ids self)))
   \<and> (u \<notin> entity_row.uid ` set (entities self) \<longrightarrow> get_entity_profile L self (UInt u) = Inr None)"
proof (intro conjI impI)
  assume "u \<in> entity_row.uid ` set (entities self)"
  then have "filter (\<lambda>e. entity_row.uid e = u) (entities self) \<noteq> []"
    by (auto simp: filter_empty_conv)
  then obtain e es where fe: "filter (\<lambda>e. entity_row.uid e = u) (entities self) = e # es"
    by (cases "filter (\<lambda>e. entity_row.uid e = u) (entities self)") auto
  then have "e \<in> set (filter (\<lambda>e. entity_row.uid e = u) (entities self))" by simp
  then have "e \<in> set (entities self)" "entity_row.uid e = u" by auto
  with fe show "\<exists>p. get_entity_profile L self (UInt u) = Inr (Some p)
          \<and> profile.uid p = u
          \<and> basic_info p \<in> set (entities self) \<and> entity_row.uid (basic_info p) = u
          \<and> profile.aliases p = filter (\<lambda>a. alias_row.entity_uid a = u) (integrator.aliases self)
          \<and> profile.addresses p = filter (\<lambda>a. address_row.entity_uid a = u) (integrator.addresses self)
          \<and> profile.ids p = filter (\<lambda>a. id_row.entity_uid a = u) (integrator.ids self)"
    by (simp add: get_entity_profile_def)
next
  assume "u \<notin> entity_row.uid ` set (entities self)"
  then have "filter (\<lambda>e. entity_row.uid e = u) (entities self) = []"
    by (auto simp: filter_empty_conv)
  then show "get_entity_profile L self (UInt u) = Inr None"
    by (simp add: get_entity_profile_def)
qed

theorem get_entity_profile_join_witness:
  "100 \<in> entity_row.uid ` set (entities sample)
   \<and> (\<exists>p. get_entity_profile sample_lib sample (UInt 100) = Inr (Some p)
        \<and> profile.aliases p = [sample_aliases ! 0]
        \<and> profile.addresses p = [sample_addresses ! 0, sample_addresses ! 2]
        \<and> profile.ids p = [sample_ids ! 1])
   \<and> 999 \<notin> entity_row.uid ` set (entities sample)
   \<and> 999 \<in> alias_row.entity_uid ` set (integrator.aliases sample)
   \<and> get_entity_profile sample_lib sample (UInt 999) = Inr None"
proof -
  have h1: "100 \<in> entity_row.uid ` set (entities sample)"
    by (simp add: sample_tables sample_entities_def)
  have h2: "999 \<notin> entity_row.uid ` set (entities sample)"
    by (simp add: sample_tables sample_entities_def)
  have h3: "999 \<in> alias_row.entity_uid ` set (integrator.aliases sample)"
    by (simp add: sample_tables sample_aliases_def)
  from get_entity_profile_join [where u = 100 and self = sample and L = sample_lib] h1
  obtain p where p: "get_entity_profile sample_lib sample (UInt 100) = Inr (Some p)"
    "profile.aliases p = filter (\<lambda>a. alias_row.entity_uid a = 100) (integrator.aliases sample)"
    "profile.addresses p = filter (\<lambda>a. address_row.entity_uid a = 100) (integrator.addresses sample)"
    "profile.ids p = filter (\<lambda>a. id_row.entity_uid a = 100) (integrator.ids sample)"
    by blast
  have "profile.aliases p = [sample_aliases ! 0]"
    using p(2) by (simp add: sample_tables sample_aliases_def)
  moreover have "profile.addresses p = [sample_addresses ! 0, sample_addresses ! 2]"
    using p(3) by (simp add: sample_tables sample_addresses_def)
  moreover have "profile.ids p = [sample_ids ! 1]"
    using p(4) by (simp add: sample_tables sample_ids_def)
  moreover from get_entity_profile_join [where u = 999 and self = sample and L = sample_lib] h2
  have "get_entity_profile sample_lib sample (UInt 999) = Inr None" by blast
  ultimately show ?thesis using h1 h2 h3 p(1) by blast
qed

section \<open>Matcher: approximate lookup\<close>

lemma fuzzy_match_eq:
  "fuzzy_match L ratio self name t =
     py_sorted_reverse match_result.match_score
       (map (mk_match L ratio name)
            (filter (\<lambda>ku. t \<le> ratio (normalize_name L name) (fst ku)) (name_index self)))"
proof -
  have "mk_match L ratio name =
          (\<lambda>ku. \<lparr>match_result.uid = snd ku, ofac_name = fst ku, input_name = name,
                  match_score = ratio (normalize_name L name) (fst ku)\<rparr>)"
    by (rule ext) (simp add: mk_match_def)
  then show ?thesis by (simp add: fuzzy_match_def fuzzy_scan_eq)
qed

lemma py_sorted_reverse_sorted:
  "sorted_wrt (\<lambda>a b. k b \<le> k a) (py_sorted_reverse k xs)"
proof -
  have "sorted (map (\<lambda>x. - k x) (sort_key (\<lambda>x. - k x) xs))" by (rule sorted_sort_key)
  then show ?thesis by (simp add: py_sorted_reverse_def sorted_map)
qed

lemma py_sorted_reverse_stable:
  "filter (\<lambda>x. k x = s) (py_sorted_reverse k xs) = filter (\<lambda>x. k x = s) xs"
proof -
  have "filter (\<lambda>x. - k x = - s) (sort_key (\<lambda>x. - k x) xs) = filter (\<lambda>x. - k x = - s) xs"
    by (rule sort_key_stable)
  then show ?thesis by (simp add: py_sorted_reverse_def)
qed

text \<open>
  C5. For every query name and threshold, \<open>fuzzy_match\<close> returns exactly the index
  entries whose score against the normalized query reaches the threshold, one result per
  entry and none below the threshold; the results are ordered by descending score, and
  the results of one score appear in index order. Raising the threshold can only remove
  results.
\<close>

theorem fuzzy_match_threshold:
  "set (fuzzy_match L ratio self name t) =
     mk_match L ratio name ` {ku \<in> set (name_index self). t \<le> ratio (normalize_name L name) (fst ku)}
   \<and> length (fuzzy_match L ratio self name t) =
       length (filter (\<lambda>ku. t \<le> ratio (normalize_name L name) (fst ku)) (name_index self))
   \<and> (\<forall>m \<in> set (fuzzy_match L ratio self name t). t \<le> match_result.match_score m)
   \<and> sorted_wrt (\<lambda>a b. match_result.match_score b \<le> match_result.match_score a)
        (fuzzy_match L ratio self name t)
   \<and> (\<forall>s. filter (\<lambda>m. match_result.match_score m = s) (fuzzy_match L ratio self name t) =
          map (mk_match L ratio name)
            (filter (\<lambda>ku. ratio (normalize_name L name) (fst ku) = s \<and> t \<le> s) (name_index self)))
   \<and> (t \<le> t2 \<longrightarrow> set (fuzzy_match L ratio self name t2) \<subseteq> set (fuzzy_match L ratio self name t))"
proof (intro conjI allI impI)
  show s: "set (fuzzy_match L ratio self name t) =
     mk_match L ratio name ` {ku \<in> set (name_index self). t \<le> ratio (normalize_name L name) (fst ku)}"
    by (simp add: fuzzy_match_eq)
  show "length (fuzzy_match L ratio self name t) =
       length (filter (\<lambda>ku. t \<le> ratio (normalize_name L name) (fst ku)) (name_index self))"
    by (simp add: fuzzy_match_eq py_sorted_reverse_def)
  show "\<forall>m \<in> set (fuzzy_match L ratio self name t). t \<le> match_result.match_score m"
    by (auto simp: fuzzy_match_eq mk_match_def)
  show "sorted_wrt (\<lambda>a b. match_result.match_score b \<le> match_result.match_score a)
        (fuzzy_match L ratio self name t)"
    by (simp add: fuzzy_match_eq py_sorted_reverse_sorted)
  show "filter (\<lambda>m. match_result.match_score m = s) (fuzzy_match L ratio self name t) =
          map (mk_match L ratio name)
            (filter (\<lambda>ku. ratio (normalize_name L name) (fst ku) = s \<and> t \<le> s) (name_index self))" for s
  proof -
    have "filter (\<lambda>m. match_result.match_score m = s) (fuzzy_match L ratio self name t) =
          filter (\<lambda>m. match_result.match_score m = s) (map (mk_match L ratio name)
            (filter (\<lambda>ku. t \<le> ratio (normalize_name L name) (fst ku)) (name_index self)))"
      by (simp add: fuzzy_match_eq py_sorted_reverse_stable)
    also have "\<dots> = map (mk_match L ratio name)
            (filter (\<lambda>ku. ratio (normalize_name L name) (fst ku) = s \<and> t \<le> s) (name_index self))"
      by (auto simp: filter_map o_def mk_match_def intro!: arg_cong[where f="map _"] filter_cong)
    finally show ?thesis .
  qed
  assume "t \<le> t2"
  then show "set (fuzzy_match L ratio self name t2) \<subseteq> set (fuzzy_match L ratio self name t)"
    by (auto simp: fuzzy_match_eq)
qed

theorem fuzzy_match_threshold_witness:
  "(50::int) \<le> 80
   \<and> map match_result.ofac_name (fuzzy_match sample_lib sample_ratio sample (Str (asc ''Ali Hassen'')) 50)
       = [asc ''ALI HASSAN'', asc ''ALI HASAN'']
   \<and> map match_result.match_score (fuzzy_match sample_lib sample_ratio sample (Str (asc ''Ali Hassen'')) 50)
       = [90, 73]
   \<and> list_all (\<lambda>m. 50 \<le> match_result.match_score m)
        (fuzzy_match sample_lib sample_ratio sample (Str (asc ''Ali Hassen'')) 50)
   \<and> set (fuzzy_match sample_lib sample_ratio sample (Str (asc ''Ali Hassen'')) 80)
       \<subseteq> set (fuzzy_match sample_lib sample_ratio sample (Str (asc ''Ali Hassen'')) 50)"
proof -
  have "map match_result.ofac_name (fuzzy_match sample_lib sample_ratio sample (Str (asc ''Ali Hassen'')) 50)
          = [asc ''ALI HASSAN'', asc ''ALI HASAN'']"
    by code_simp
  moreover have "map match_result.match_score
          (fuzzy_match sample_lib sample_ratio sample (Str (asc ''Ali Hassen'')) 50) = [90, 73]"
    by code_simp
  moreover from fuzzy_match_threshold [where L = sample_lib and ratio = sample_ratio
      and self = sample and name = "Str (asc ''Ali Hassen'')" and t = 50 and ?t2.0 = 80]
  have a: "\<forall>m \<in> set (fuzzy_match sample_lib sample_ratio sample (Str (asc ''Ali Hassen'')) 50).
             50 \<le> match_result.match_score m"
    and b: "(50::int) \<le> 80 \<longrightarrow> set (fuzzy_match sample_lib sample_ratio sample (Str (asc ''Ali Hassen'')) 80)
          \<subseteq> set (fuzzy_match sample_lib sample_ratio sample (Str (asc ''Ali Hassen'')) 50)"
    by blast+
  have "list_all (\<lambda>m. 50 \<le> match_result.match_score m)
          (fuzzy_match sample_lib sample_ratio sample (Str (asc ''Ali Hassen'')) 50)"
    using a by (simp only: list_all_iff)
  moreover have "set (fuzzy_match sample_lib sample_ratio sample (Str (asc ''Ali Hassen'')) 80)
          \<subseteq> set (fuzzy_match sample_lib sample_ratio sample (Str (asc ''Ali Hassen'')) 50)"
    using b by simp
  ultimately show ?thesis by simp
qed

section \<open>Normalizer: idempotence\<close>

subsection \<open>Characters\<close>

lemma blank_is_space: "is_space L 32"
  by (simp add: is_space_def)

lemma blank_not_word: "\<not> is_word L 32"
  by (simp add: is_word_def)

lemma space_not_word: "tables_ok L \<Longrightarrow> is_space L c \<Longrightarrow> \<not> is_word L c"
  by (auto simp: tables_ok_def is_space_def is_word_def split: if_splits)

lemma upper_char_blank: "upper_char L 32 = [32]"
  by (simp add: upper_char_def)

lemma upper_char_fixed:
  assumes "tables_ok L" "d \<in> set (upper_char L c)"
  shows "upper_char L d = [d]"
proof (cases "c < 128")
  case True
  with assms(2) have "d < 128" "\<not> (97 \<le> d \<and> d \<le> 122)"
    by (auto simp: upper_char_def split: if_splits)
  then show ?thesis by (auto simp: upper_char_def)
next
  case False
  with assms(2) have "128 \<le> c" "d \<in> set (u_upper L c)" by (simp_all add: upper_char_def)
  with assms(1) show ?thesis unfolding tables_ok_def by blast
qed

lemma py_upper_fixed: "(\<forall>c \<in> set s. upper_char L c = [c]) \<Longrightarrow> py_upper L s = s"
  by (induction s) (simp_all add: py_upper_def)

lemma set_py_upper:
  "tables_ok L \<Longrightarrow> d \<in> set (py_upper L s) \<Longrightarrow> upper_char L d = [d]"
  by (auto simp: py_upper_def dest: upper_char_fixed)

subsection \<open>What the scan and the whitespace collapse emit\<close>

lemma match_alt_drop: "match_alt L ts s = Some rest \<Longrightarrow> \<exists>n. rest = drop n s"
  by (induction ts) (auto simp: Let_def split: if_splits)

lemma match_alt_set: "match_alt L ts s = Some rest \<Longrightarrow> set rest \<subseteq> set s"
  using match_alt_drop set_drop_subset by fastforce

lemma set_re_sub_titles: "set (re_sub_titles L pw s) \<subseteq> set s"
proof (induction L pw s rule: re_sub_titles.induct)
  case (1 L pw)
  then show ?case by simp
next
  case (2 L pw c cs)
  show ?case
  proof (cases "\<not> pw \<and> is_word L c")
    case False
    with 2 show ?thesis by auto
  next
    case True
    show ?thesis
    proof (cases "match_alt L titles (c # cs)")
      case None
      with True 2 show ?thesis by auto
    next
      case (Some rest)
      then have r: "set rest \<subseteq> set (c # cs)" by (rule match_alt_set)
      have "set (tl rest) \<subseteq> set rest" by (cases rest) auto
      with r True Some 2 show ?thesis
        by (auto split: if_splits)
    qed
  qed
qed

lemma set_py_split: "w \<in> set (py_split L s) \<Longrightarrow> set w \<subseteq> set s"
proof (induction L s arbitrary: w rule: py_split.induct)
  case (1 L)
  then show ?case by simp
next
  case (2 L c cs)
  then show ?case
    by (auto split: if_splits dest: set_takeWhileD set_dropWhileD)
qed

lemma set_py_join: "set (py_join sep ws) \<subseteq> set sep \<union> \<Union> (set ` set ws)"
  by (induction sep ws rule: py_join.induct) auto


subsection \<open>Whitespace collapse\<close>

lemma py_split_words:
  "w \<in> set (py_split L s) \<Longrightarrow> w \<noteq> [] \<and> (\<forall>c \<in> set w. \<not> is_space L c)"
proof (induction L s arbitrary: w rule: py_split.induct)
  case (1 L)
  then show ?case by simp
next
  case (2 L c cs)
  show ?case
  proof (cases "is_space L c")
    case True
    with 2 show ?thesis by simp
  next
    case False
    with 2(3) have "w = c # takeWhile (\<lambda>x. \<not> is_space L x) cs
        \<or> w \<in> set (py_split L (dropWhile (\<lambda>x. \<not> is_space L x) cs))"
      by simp
    then show ?thesis
    proof
      assume e: "w = c # takeWhile (\<lambda>x. \<not> is_space L x) cs"
      have "\<forall>x \<in> set (takeWhile (\<lambda>x. \<not> is_space L x) cs). \<not> is_space L x"
        using set_takeWhileD by fastforce
      with e False show ?thesis by simp
    next
      assume "w \<in> set (py_split L (dropWhile (\<lambda>x. \<not> is_space L x) cs))"
      with 2(2) False show ?thesis by blast
    qed
  qed
qed

lemma py_split_word_append:
  assumes "w \<noteq> []" "\<forall>c \<in> set w. \<not> is_space L c" "r = [] \<or> is_space L (hd r)"
  shows "py_split L (w @ r) = w # py_split L r"
proof -
  from assms(1) obtain c w' where w: "w = c # w'" by (cases w) auto
  from assms(2) w have c: "\<not> is_space L c" and w': "\<forall>x \<in> set w'. \<not> is_space L x" by auto
  from assms(3) have t: "takeWhile (\<lambda>x. \<not> is_space L x) r = []" and d: "dropWhile (\<lambda>x. \<not> is_space L x) r = r"
    by (cases r; auto)+
  from w' have "takeWhile (\<lambda>x. \<not> is_space L x) (w' @ r) = w'"
    by (simp add: takeWhile_append2 t)
  moreover from w' have "dropWhile (\<lambda>x. \<not> is_space L x) (w' @ r) = r"
    by (simp add: dropWhile_append2 d)
  ultimately show ?thesis using c w by simp
qed

lemma py_split_join:
  "\<forall>w \<in> set ws. w \<noteq> [] \<and> (\<forall>c \<in> set w. \<not> is_space L c) \<Longrightarrow>
   py_split L (py_join [32] ws) = ws"
proof (induction ws)
  case Nil
  then show ?case by simp
next
  case (Cons w ws)
  then have w: "w \<noteq> []" "\<forall>c \<in> set w. \<not> is_space L c" by simp_all
  show ?case
  proof (cases ws)
    case Nil
    with w show ?thesis using py_split_word_append [where w = w and r = "[]"] by simp
  next
    case (Cons v vs)
    have ih: "py_split L (py_join [32] ws) = ws" using Cons.prems Cons.IH by simp
    have "py_split L (w @ (32 # py_join [32] ws)) =
            w # py_split L (32 # py_join [32] ws)"
      using w by (intro py_split_word_append) (simp_all add: blank_is_space)
    also have "\<dots> = w # py_split L (py_join [32] ws)"
      by (simp add: blank_is_space)
    finally have "py_split L (w @ (32 # py_join [32] ws)) = w # ws"
      using ih by simp
    moreover have "py_join [32] (w # ws) = w @ (32 # py_join [32] ws)"
      using Cons by simp
    ultimately show ?thesis by simp
  qed
qed

lemma collapse_idem:
  "py_join [32] (py_split L (py_join [32] (py_split L s))) = py_join [32] (py_split L s)"
proof -
  have "\<forall>w \<in> set (py_split L s). w \<noteq> [] \<and> (\<forall>c \<in> set w. \<not> is_space L c)"
    using py_split_words by blast
  then have "py_split L (py_join [32] (py_split L s)) = py_split L s"
    by (rule py_split_join)
  then show ?thesis by simp
qed

subsection \<open>Titles\<close>

lemma titles_word: "\<forall>t \<in> set titles. \<forall>c \<in> set t. is_word L c"
  by (simp add: titles_def is_word_def asc_def)

lemma takeWhile_word_append:
  "b = [] \<or> \<not> is_word L (hd b) \<Longrightarrow> takeWhile (is_word L) (a @ b) = takeWhile (is_word L) a"
proof (induction a)
  case Nil
  then show ?case by (cases b) auto
next
  case (Cons x a)
  then show ?case by simp
qed

lemma match_alt_Some:
  assumes "match_alt L ts s = Some rest" "\<forall>t \<in> set ts. \<forall>c \<in> set t. is_word L c"
  shows "takeWhile (is_word L) s \<in> set ts \<and> rest = dropWhile (is_word L) s"
  using assms
proof (induction ts)
  case Nil
  then show ?case by simp
next
  case (Cons t ts)
  show ?case
  proof (cases "take (length t) s = t \<and> (drop (length t) s = [] \<or> \<not> is_word L (hd (drop (length t) s)))")
    case False
    with Cons show ?thesis by (auto simp: Let_def)
  next
    case True
    with Cons.prems have r: "rest = drop (length t) s" by (simp add: Let_def)
    from True have s: "s = t @ rest" using r by (metis append_take_drop_id)
    from Cons.prems(2) have tw: "\<forall>c \<in> set t. is_word L c" by simp
    from True r have b: "rest = [] \<or> \<not> is_word L (hd rest)" by simp
    then have "takeWhile (is_word L) rest = []" "dropWhile (is_word L) rest = rest" by (cases rest; auto)+
    with tw have "takeWhile (is_word L) (t @ rest) = t" "dropWhile (is_word L) (t @ rest) = rest"
      by (simp_all add: takeWhile_append2 dropWhile_append2)
    with s show ?thesis by simp
  qed
qed

lemma match_alt_None:
  "match_alt L ts s = None \<Longrightarrow> takeWhile (is_word L) s \<notin> set ts"
proof (induction ts)
  case Nil
  then show ?case by simp
next
  case (Cons t ts)
  from Cons.prems have n: "\<not> (take (length t) s = t \<and> (drop (length t) s = [] \<or> \<not> is_word L (hd (drop (length t) s))))"
    and m: "match_alt L ts s = None"
    by (auto simp: Let_def split: if_splits)
  have "takeWhile (is_word L) s \<noteq> t"
  proof
    assume e: "takeWhile (is_word L) s = t"
    have s: "s = t @ dropWhile (is_word L) s" using e by (metis takeWhile_dropWhile_id)
    then have "take (length t) s = t" by (metis append_eq_conv_conj)
    moreover from s have "drop (length t) s = dropWhile (is_word L) s" by (metis append_eq_conv_conj)
    moreover have "dropWhile (is_word L) s = [] \<or> \<not> is_word L (hd (dropWhile (is_word L) s))"
      using hd_dropWhile by blast
    ultimately show False using n by simp
  qed
  with Cons.IH [OF m] show ?case by simp
qed


lemma match_alt_titles_Some:
  "match_alt L titles s = Some rest \<Longrightarrow>
   takeWhile (is_word L) s \<in> set titles \<and> rest = dropWhile (is_word L) s"
  using match_alt_Some titles_word by blast

lemma has_title_nonword_head:
  "s = [] \<or> \<not> is_word L (hd s) \<Longrightarrow> has_title L p s = has_title L q s"
  by (cases s) auto

lemma no_title_fixed: "\<not> has_title L pw s \<Longrightarrow> re_sub_titles L pw s = s"
proof (induction s arbitrary: pw)
  case Nil
  then show ?case by simp
next
  case (Cons c cs)
  from Cons.prems have t: "\<not> (\<not> pw \<and> is_word L c \<and> takeWhile (is_word L) (c # cs) \<in> set titles)"
    and r: "\<not> has_title L (is_word L c) cs" by simp_all
  from r have ih: "re_sub_titles L (is_word L c) cs = cs" by (rule Cons.IH)
  show ?case
  proof (cases "\<not> pw \<and> is_word L c")
    case False
    with ih show ?thesis by auto
  next
    case True
    with t have "takeWhile (is_word L) (c # cs) \<notin> set titles" by blast
    then have "match_alt L titles (c # cs) = None"
      using match_alt_titles_Some by (cases "match_alt L titles (c # cs)") blast+
    with True ih show ?thesis by simp
  qed
qed

lemma takeWhile_word_re_sub:
  "takeWhile (is_word L) (re_sub_titles L True s) = takeWhile (is_word L) s"
  by (induction s) simp_all

lemma re_sub_titles_no_title: "\<not> has_title L pw (re_sub_titles L pw s)"
proof (induction L pw s rule: re_sub_titles.induct)
  case (1 L pw)
  then show ?case by simp
next
  case (2 L pw c cs)
  show ?case
  proof (cases "\<not> pw \<and> is_word L c")
    case False
    with 2(4) show ?thesis by auto
  next
    case True
    show ?thesis
    proof (cases "match_alt L titles (c # cs)")
      case None
      then have "takeWhile (is_word L) (c # cs) \<notin> set titles" by (rule match_alt_None)
      moreover have "takeWhile (is_word L) (c # re_sub_titles L True cs) = takeWhile (is_word L) (c # cs)"
        using True by (simp add: takeWhile_word_re_sub)
      moreover have "\<not> has_title L True (re_sub_titles L True cs)"
        using 2(1) True None by simp
      ultimately show ?thesis using True None by simp
    next
      case (Some rest)
      then have rest: "rest = dropWhile (is_word L) (c # cs)"
        using match_alt_titles_Some by blast
      then have b: "rest = [] \<or> \<not> is_word L (hd rest)"
        using hd_dropWhile by blast
      show ?thesis
      proof (cases "rest \<noteq> [] \<and> hd rest = 46")
        case dot: True
        with 2(2) True Some have "\<not> has_title L False (re_sub_titles L False (tl rest))" by simp
        with True Some dot show ?thesis by simp
      next
        case nodot: False
        with 2(3) True Some have ih: "\<not> has_title L True (re_sub_titles L True rest)" by simp
        have "re_sub_titles L True rest = [] \<or> \<not> is_word L (hd (re_sub_titles L True rest))"
          using b by (cases rest) auto
        then have "has_title L False (re_sub_titles L True rest) = has_title L True (re_sub_titles L True rest)"
          by (rule has_title_nonword_head)
        with ih True Some nodot show ?thesis by auto
      qed
    qed
  qed
qed

lemma has_title_append:
  "b = [] \<or> \<not> is_word L (hd b) \<Longrightarrow> has_title L p (a @ b) = (has_title L p a \<or> has_title L True b)"
proof (induction a arbitrary: p)
  case Nil
  then show ?case using has_title_nonword_head [where s = b and p = p and q = True] by simp
next
  case (Cons c a)
  have "takeWhile (is_word L) ((c # a) @ b) = takeWhile (is_word L) (c # a)"
    using Cons.prems by (rule takeWhile_word_append)
  then have "takeWhile (is_word L) (c # a @ b) = takeWhile (is_word L) (c # a)" by simp
  moreover have "has_title L (is_word L c) (a @ b) = (has_title L (is_word L c) a \<or> has_title L True b)"
    using Cons.prems by (rule Cons.IH)
  ultimately show ?case by (simp only: has_title.simps append_Cons) blast
qed

lemma py_join_Cons:
  "py_join sep (w # ws) = (if ws = [] then w else w @ sep @ py_join sep ws)"
  by (cases ws) simp_all

lemma has_title_collapse:
  "tables_ok L \<Longrightarrow> has_title L False (py_join [32] (py_split L s)) = has_title L False s"
proof (induction L s rule: py_split.induct)
  case (1 L)
  then show ?case by simp
next
  case (2 L c cs)
  note ok = 2(3)
  let ?w = "c # takeWhile (\<lambda>x. \<not> is_space L x) cs"
  let ?r = "dropWhile (\<lambda>x. \<not> is_space L x) cs"
  show ?case
  proof (cases "is_space L c")
    case True
    with 2(1) ok show ?thesis by (simp add: space_not_word)
  next
    case False
    have ih: "has_title L False (py_join [32] (py_split L ?r)) = has_title L False ?r"
      using 2(2) ok False by simp
    have "?r = [] \<or> is_space L (hd ?r)" using hd_dropWhile [of "\<lambda>x. \<not> is_space L x" cs] by blast
    then have b: "?r = [] \<or> \<not> is_word L (hd ?r)" using space_not_word [OF ok] by blast
    have s: "c # cs = ?w @ ?r" by simp
    have lhs: "has_title L False (c # cs) = (has_title L False ?w \<or> has_title L False ?r)"
      using has_title_append [OF b, where p = False and a = ?w]
        has_title_nonword_head [OF b, where p = True and q = False]
      by (simp only: s)
    have split: "py_split L (c # cs) = ?w # py_split L ?r" using False by simp
    show ?thesis
    proof (cases "py_split L ?r = []")
      case True
      with ih have "\<not> has_title L False ?r" by simp
      with lhs True split show ?thesis by (simp only: py_join_Cons) simp
    next
      case nonempty: False
      have "has_title L False (?w @ (32 # py_join [32] (py_split L ?r))) =
              (has_title L False ?w \<or> has_title L True (32 # py_join [32] (py_split L ?r)))"
        by (rule has_title_append) (simp add: blank_not_word)
      also have "has_title L True (32 # py_join [32] (py_split L ?r)) =
              has_title L False (py_join [32] (py_split L ?r))"
        by (simp add: blank_not_word)
      finally have "has_title L False (?w @ (32 # py_join [32] (py_split L ?r))) =
              (has_title L False ?w \<or> has_title L False ?r)"
        using ih by simp
      moreover have "py_join [32] (py_split L (c # cs)) = ?w @ (32 # py_join [32] (py_split L ?r))"
        using nonempty by (simp only: split py_join_Cons) simp
      ultimately show ?thesis using lhs by simp
    qed
  qed
qed

lemma normalize_name_Str:
  "normalize_name L (Str s) = py_join [32] (py_split L (re_sub_titles L False (py_upper L s)))"
  by (simp add: normalize_name_def asc_def)

lemma normalize_name_upper:
  assumes "tables_ok L"
  shows "py_upper L (normalize_name L x) = normalize_name L x"
proof (cases x)
  case NaN
  then show ?thesis by (simp add: normalize_name_def py_upper_def)
next
  case (Str s)
  have "upper_char L c = [c]" if c: "c \<in> set (normalize_name L (Str s))" for c
  proof -
    from c have "c \<in> set [32] \<union> \<Union> (set ` set (py_split L (re_sub_titles L False (py_upper L s))))"
      using set_py_join unfolding normalize_name_Str by fastforce
    then consider "c = 32"
      | w where "w \<in> set (py_split L (re_sub_titles L False (py_upper L s)))" "c \<in> set w"
      by auto
    then show ?thesis
    proof cases
      case 1
      then show ?thesis by (simp add: upper_char_blank)
    next
      case 2
      then have "c \<in> set (re_sub_titles L False (py_upper L s))" using set_py_split by blast
      then have "c \<in> set (py_upper L s)" using set_re_sub_titles by blast
      with assms show ?thesis by (rule set_py_upper)
    qed
  qed
  with Str show ?thesis by (simp add: py_upper_fixed)
qed

lemma normalize_name_no_title:
  assumes "tables_ok L"
  shows "\<not> has_title L False (normalize_name L x)"
proof (cases x)
  case NaN
  then show ?thesis by (simp add: normalize_name_def)
next
  case (Str s)
  with assms show ?thesis
    by (simp add: normalize_name_Str has_title_collapse re_sub_titles_no_title)
qed

lemma normalize_name_idem:
  assumes "tables_ok L"
  shows "normalize_name L (Str (normalize_name L x)) = normalize_name L x"
proof (cases x)
  case NaN
  then show ?thesis by (simp add: normalize_name_def py_upper_def)
next
  case (Str s)
  have "normalize_name L (Str (normalize_name L x)) =
          py_join [32] (py_split L (re_sub_titles L False (normalize_name L x)))"
    by (simp only: normalize_name_Str normalize_name_upper [OF assms])
  also have "re_sub_titles L False (normalize_name L x) = normalize_name L x"
    using normalize_name_no_title [OF assms] by (rule no_title_fixed)
  also have "py_join [32] (py_split L (normalize_name L x)) = normalize_name L x"
    using Str by (simp only: normalize_name_Str collapse_idem)
  finally show ?thesis .
qed





section \<open>Name index: what the keys are\<close>

lemma map_of_dict_set: "map_of (dict_set k v d) = (map_of d)(k \<mapsto> v)"
  by (induction d) (auto simp: fun_eq_iff)

lemma keys_dict_set: "fst ` set (dict_set k v d) = insert k (fst ` set d)"
proof (induction d)
  case Nil
  then show ?case by simp
next
  case (Cons p d)
  obtain k' v' where p: "p = (k', v')" by (cases p)
  show ?case
  proof (cases "k' = k")
    case True
    with p show ?thesis by auto
  next
    case False
    with p Cons show ?thesis by auto
  qed
qed

lemma distinct_dict_set: "distinct (map fst d) \<Longrightarrow> distinct (map fst (dict_set k v d))"
proof (induction d)
  case Nil
  then show ?case by simp
next
  case (Cons p d)
  obtain k' v' where p: "p = (k', v')" by (cases p)
  show ?case
  proof (cases "k' = k")
    case True
    with p Cons.prems show ?thesis by simp
  next
    case False
    with p Cons show ?thesis by (simp add: keys_dict_set)
  qed
qed

lemma distinct_index_entities:
  "distinct (map fst names) \<Longrightarrow> distinct (map fst (index_entities L es names))"
  by (induction es arbitrary: names) (simp_all add: distinct_dict_set)

lemma distinct_index_aliases:
  "distinct (map fst names) \<Longrightarrow> distinct (map fst (index_aliases L als names))"
  by (induction als arbitrary: names) (simp_all add: distinct_dict_set)

lemma distinct_build_name_index: "distinct (map fst (build_name_index L es als))"
  by (simp add: build_name_index_def distinct_index_aliases distinct_index_entities)

lemma unnormalized_key_unreachable:
  "tables_ok L \<Longrightarrow> normalize_name L (Str k) \<noteq> k \<Longrightarrow> normalize_name L name \<noteq> k"
  using normalize_name_idem by metis

text \<open>
  C1. The index is to be keyed by the normal form of each composed name. The entity
  row with first name \<^verbatim>\<open>Dr.\<close> and last name \<^verbatim>\<open>Jane Doe\<close> is stored under
  \<^verbatim>\<open>DR. JANE DOE\<close>, which is not the normal form \<^verbatim>\<open>JANE DOE\<close> of the composed
  name, and the exact lookup of the entity's own name finds nothing.
\<close>

theorem build_name_index_key_not_normalized:
  "build_name_index L [sample_entities ! 1] [] = [(asc ''DR. JANE DOE'', 7)]
   \<and> normalize_name L (Str (asc ''Dr. Jane Doe'')) = asc ''JANE DOE''
   \<and> exact_match L (init L [sample_entities ! 1] [] [] []) (Str (asc ''Dr. Jane Doe'')) = None"
  by code_simp

section \<open>Batch resolution: rows and verdicts\<close>

lemma process_rows_Inr:
  "process_rows L ratio contains self nc lc rows acc = Inr rs \<longleftrightarrow>
     (\<exists>rs'. rs = acc @ rs' \<and>
        list_all2 (\<lambda>ir r. process_row L ratio contains self nc lc ir = Inr r) rows rs')"
proof (induction rows arbitrary: acc)
  case Nil
  then show ?case by auto
next
  case (Cons ir rows)
  show ?case
  proof (cases "process_row L ratio contains self nc lc ir")
    case (Inl e)
    then show ?thesis by (auto simp: list_all2_Cons1)
  next
    case (Inr r)
    then show ?thesis by (auto simp: Cons.IH list_all2_Cons1)
  qed
qed

lemma process_new_source_rows:
  "process_new_source L ratio contains self data nc lc = Inr rs \<longleftrightarrow>
     list_all2 (\<lambda>ir r. process_row L ratio contains self nc lc ir = Inr r) (as_frame data) rs"
  by (simp add: process_new_source_def process_rows_Inr)

lemma location_matching_None [simp]: "location_matching contains self None row r = Inr r"
  by (simp add: location_matching_def)

lemma location_matching_fields:
  "location_matching contains self lc row r = Inr r' \<Longrightarrow>
   source_row r' = source_row r \<and> ofac_match r' = ofac_match r \<and> ofac_uid r' = ofac_uid r
   \<and> source_result.match_score r' = source_result.match_score r \<and> confidence r' = confidence r"
  by (auto simp: location_matching_def split: option.splits if_splits sum.splits)

lemma name_matching_keeps:
  "source_row (name_matching L ratio self nc row r) = source_row r
   \<and> location_matches (name_matching L ratio self nc row r) = location_matches r"
  by (auto simp: name_matching_def Let_def split: option.splits list.splits)

lemma process_row_source_row:
  "process_row L ratio contains self nc lc ir = Inr r \<Longrightarrow> source_row r = fst ir"
  by (auto simp: process_row_def name_matching_keeps dest!: location_matching_fields)

lemma batch_search_names_fuzzy:
  "length (batch_search_names L ratio self names True t) = length names
   \<and> map batch_row.input_name (batch_search_names L ratio self names True t) = names"
  by (induction names) (auto simp: Let_def split: list.splits)

text \<open>
  C2 (as amended). With fuzzy matching enabled, \<open>batch_search_names\<close> returns exactly
  one row per input name, in input order, whatever the names (missing ones included) and
  the threshold. Whenever \<open>process_new_source\<close> returns, it returns exactly one row per
  source row, in source order, carrying the source row's label; without a location column
  it always returns.
\<close>

theorem batch_one_row_per_input:
  "length (batch_search_names L ratio self names True t) = length names
   \<and> map batch_row.input_name (batch_search_names L ratio self names True t) = names
   \<and> (process_new_source L ratio contains self data nc lc = Inr rs \<longrightarrow>
        length rs = length (as_frame data) \<and> map source_row rs = map fst (as_frame data))
   \<and> (\<exists>rs'. process_new_source L ratio contains self data nc None = Inr rs')"
proof (intro conjI impI)
  show "length (batch_search_names L ratio self names True t) = length names"
    and "map batch_row.input_name (batch_search_names L ratio self names True t) = names"
    using batch_search_names_fuzzy by blast+
next
  assume "process_new_source L ratio contains self data nc lc = Inr rs"
  then have l: "list_all2 (\<lambda>ir r. process_row L ratio contains self nc lc ir = Inr r) (as_frame data) rs"
    by (simp add: process_new_source_rows)
  then show "length rs = length (as_frame data)" by (simp add: list_all2_lengthD)
  from l have "list_all2 (\<lambda>ir r. source_row r = fst ir) (as_frame data) rs"
    by (rule list_all2_mono) (rule process_row_source_row)
  then show "map source_row rs = map fst (as_frame data)"
    by (induction rule: list_all2_induct) auto
next
  have "\<exists>rs'. list_all2 (\<lambda>ir r. process_row L ratio contains self nc None ir = Inr r) rows rs'" for rows
  proof (induction rows)
    case Nil
    then show ?case by simp
  next
    case (Cons ir rows)
    then obtain rs' where "list_all2 (\<lambda>ir r. process_row L ratio contains self nc None ir = Inr r) rows rs'"
      by blast
    moreover obtain r where "process_row L ratio contains self nc None ir = Inr r"
      by (simp add: process_row_def)
    ultimately have "list_all2 (\<lambda>ir r. process_row L ratio contains self nc None ir = Inr r) (ir # rows) (r # rs')"
      by simp
    then show ?case by blast
  qed
  then show "\<exists>rs'. process_new_source L ratio contains self data nc None = Inr rs'"
    by (simp add: process_new_source_rows)
qed

lemma sample_source_result:
  "process_new_source sample_lib sample_ratio sample_contains sample sample_source (Some ''Name'') (Some ''Country'') =
     Inr [\<lparr>source_row = 0, ofac_match = Some ''exact'', ofac_uid = Some 100, match_score = None,
           confidence = Some ''high'', location_matches = None\<rparr>,
          \<lparr>source_row = 1, ofac_match = Some ''fuzzy'', ofac_uid = Some 100, match_score = Some 90,
           confidence = Some ''medium'', location_matches = Some 1\<rparr>,
          \<lparr>source_row = 2, ofac_match = Some ''none'', ofac_uid = None, match_score = None,
           confidence = Some ''new_entity'', location_matches = Some 1\<rparr>]"
  by code_simp

theorem batch_one_row_per_input_witness:
  "process_new_source sample_lib sample_ratio sample_contains sample sample_source (Some ''Name'') (Some ''Country'') =
     Inr [\<lparr>source_row = 0, ofac_match = Some ''exact'', ofac_uid = Some 100, match_score = None,
           confidence = Some ''high'', location_matches = None\<rparr>,
          \<lparr>source_row = 1, ofac_match = Some ''fuzzy'', ofac_uid = Some 100, match_score = Some 90,
           confidence = Some ''medium'', location_matches = Some 1\<rparr>,
          \<lparr>source_row = 2, ofac_match = Some ''none'', ofac_uid = None, match_score = None,
           confidence = Some ''new_entity'', location_matches = Some 1\<rparr>]
   \<and> length (as_frame sample_source) = 3
   \<and> map fst (as_frame sample_source) = [0, 1, 2]
   \<and> map batch_row.input_name
        (batch_search_names sample_lib sample_ratio sample [Str (asc ''Ali Hassan''), NaN, Str (asc '''')] True 85)
       = [Str (asc ''Ali Hassan''), NaN, Str (asc '''')]"
proof -
  let ?rs = "[\<lparr>source_row = 0, ofac_match = Some ''exact'', ofac_uid = Some 100, match_score = None,
           confidence = Some ''high'', location_matches = None\<rparr>,
          \<lparr>source_row = 1, ofac_match = Some ''fuzzy'', ofac_uid = Some 100, match_score = Some 90,
           confidence = Some ''medium'', location_matches = Some 1\<rparr>,
          \<lparr>source_row = 2, ofac_match = Some ''none'', ofac_uid = None, match_score = None,
           confidence = Some ''new_entity'', location_matches = Some 1\<rparr>]"
  have r: "process_new_source sample_lib sample_ratio sample_contains sample sample_source
             (Some ''Name'') (Some ''Country'') = Inr ?rs"
    by (rule sample_source_result)
  from batch_one_row_per_input [where L = sample_lib and ratio = sample_ratio and self = sample
      and names = "[Str (asc ''Ali Hassan''), NaN, Str (asc '''')]" and t = 85
      and contains = sample_contains and data = sample_source and nc = "Some ''Name''"
      and lc = "Some ''Country''" and rs = ?rs] r
  have a: "length ?rs = length (as_frame sample_source)"
    and b: "map source_row ?rs = map fst (as_frame sample_source)"
    and c: "map batch_row.input_name
        (batch_search_names sample_lib sample_ratio sample [Str (asc ''Ali Hassan''), NaN, Str (asc '''')] True 85)
       = [Str (asc ''Ali Hassan''), NaN, Str (asc '''')]"
    by blast+
  from a have "length (as_frame sample_source) = 3" by simp
  moreover from b have "map fst (as_frame sample_source) = [0, 1, 2]" by simp
  ultimately show ?thesis using r c by simp
qed

theorem batch_search_names_drops_unmatched:
  "length (batch_search_names sample_lib sample_ratio sample [Str (asc ''Ali Hassan''), Str (asc ''Unrelated Person'')] False 85)
     \<noteq> length [Str (asc ''Ali Hassan''), Str (asc ''Unrelated Person'')]"
proof -
  have "batch_search_names sample_lib sample_ratio sample [Str (asc ''Ali Hassan''), Str (asc ''Unrelated Person'')] False 85 =
          [\<lparr>batch_row.input_name = Str (asc ''Ali Hassan''), match_type = ''exact'', uid = Some 100,
            ofac_name = None, match_score = 100\<rparr>]"
    by code_simp
  then show ?thesis by simp
qed

section \<open>Batch resolution: the verdict of a row\<close>

lemma process_new_source_nth:
  assumes "process_new_source L ratio contains self data nc lc = Inr rs" "i < length (as_frame data)"
  shows "process_row L ratio contains self nc lc (as_frame data ! i) = Inr (rs ! i)"
proof -
  from assms(1) have "list_all2 (\<lambda>ir r. process_row L ratio contains self nc lc ir = Inr r)
      (as_frame data) rs"
    by (simp add: process_new_source_rows)
  then show ?thesis using assms(2) by (rule list_all2_nthD)
qed

lemma process_row_name_fields:
  assumes "process_row L ratio contains self nc lc ir = Inr r"
    and "r0 = \<lparr>source_row = fst ir, ofac_match = None, ofac_uid = None, match_score = None,
           confidence = None, location_matches = None\<rparr>"
  shows "ofac_match r = ofac_match (name_matching L ratio self nc (snd ir) r0)
       \<and> ofac_uid r = ofac_uid (name_matching L ratio self nc (snd ir) r0)
       \<and> source_result.match_score r = source_result.match_score (name_matching L ratio self nc (snd ir) r0)
       \<and> confidence r = confidence (name_matching L ratio self nc (snd ir) r0)"
  using assms by (auto simp: process_row_def dest!: location_matching_fields)

lemma fuzzy_match_head:
  assumes "fuzzy_match L ratio self name t = m # ms"
  shows "t \<le> match_result.match_score m \<and> (\<forall>m' \<in> set ms. match_result.match_score m' \<le> match_result.match_score m)"
proof -
  have "m \<in> set (fuzzy_match L ratio self name t)" using assms by simp
  then have "t \<le> match_result.match_score m"
    by (auto simp: fuzzy_match_eq mk_match_def)
  moreover have "sorted_wrt (\<lambda>a b. match_result.match_score b \<le> match_result.match_score a)
      (fuzzy_match L ratio self name t)"
    unfolding fuzzy_match_def by (rule py_sorted_reverse_sorted)
  then have "sorted_wrt (\<lambda>a b. match_result.match_score b \<le> match_result.match_score a) (m # ms)"
    by (simp only: assms)
  ultimately show ?thesis by simp
qed

text \<open>
  C3 (as amended). For every row of \<open>process_new_source\<close> that has the name column:
  when \<open>exact_match\<close> returns a non-zero identifier the verdict is \<^verbatim>\<open>exact\<close> with that
  identifier and confidence \<^verbatim>\<open>high\<close>, and no score is recorded; when \<open>exact_match\<close>
  returns nothing, the top-scoring fuzzy match at the fixed threshold 80, if there is one,
  gives the verdict \<^verbatim>\<open>fuzzy\<close> with its identifier and score (at least 80 and maximal
  among the matches), with confidence \<^verbatim>\<open>medium\<close> when the score exceeds 85 and
  \<^verbatim>\<open>low\<close> otherwise; with no fuzzy match the verdict is \<^verbatim>\<open>none\<close> with confidence
  \<^verbatim>\<open>new_entity\<close>.
\<close>

theorem process_new_source_verdict:
  assumes "process_new_source L ratio contains self data (Some col) lc = Inr rs"
    and "i < length (as_frame data)" and "col \<noteq> []"
    and "snd (as_frame data ! i) col = Some name"
  shows "(\<forall>u. exact_match L self name = Some u \<and> u \<noteq> 0 \<longrightarrow>
            ofac_match (rs ! i) = Some ''exact'' \<and> ofac_uid (rs ! i) = Some u
            \<and> confidence (rs ! i) = Some ''high''
            \<and> source_result.match_score (rs ! i) = None)
       \<and> (exact_match L self name = None \<longrightarrow>
            (case fuzzy_match L ratio self name 80 of
               m # ms \<Rightarrow>
                 ofac_match (rs ! i) = Some ''fuzzy''
                 \<and> ofac_uid (rs ! i) = Some (match_result.uid m)
                 \<and> source_result.match_score (rs ! i) = Some (match_result.match_score m)
                 \<and> 80 \<le> match_result.match_score m
                 \<and> (\<forall>m' \<in> set ms. match_result.match_score m' \<le> match_result.match_score m)
                 \<and> confidence (rs ! i) =
                     Some (if 85 < match_result.match_score m then ''medium'' else ''low'')
             | [] \<Rightarrow>
                 ofac_match (rs ! i) = Some ''none'' \<and> ofac_uid (rs ! i) = None
                 \<and> source_result.match_score (rs ! i) = None
                 \<and> confidence (rs ! i) = Some ''new_entity''))"
proof -
  let ?ir = "as_frame data ! i"
  let ?r0 = "\<lparr>source_row = fst ?ir, ofac_match = None, ofac_uid = None, match_score = None,
           confidence = None, location_matches = None\<rparr>"
  let ?n = "name_matching L ratio self (Some col) (snd ?ir) ?r0"
  have "process_row L ratio contains self (Some col) lc ?ir = Inr (rs ! i)"
    using assms(1,2) by (rule process_new_source_nth)
  then have f: "ofac_match (rs ! i) = ofac_match ?n" "ofac_uid (rs ! i) = ofac_uid ?n"
    "source_result.match_score (rs ! i) = source_result.match_score ?n"
    "confidence (rs ! i) = confidence ?n"
    using process_row_name_fields [where L = L and ratio = ratio and contains = contains
        and self = self and nc = "Some col" and lc = lc and ir = ?ir and r = "rs ! i" and ?r0.0 = ?r0] by simp_all
  show ?thesis
  proof (intro conjI allI impI)
    fix u assume "exact_match L self name = Some u \<and> u \<noteq> 0"
    then show "ofac_match (rs ! i) = Some ''exact''" "ofac_uid (rs ! i) = Some u"
      "confidence (rs ! i) = Some ''high''" "source_result.match_score (rs ! i) = None"
      using assms(3,4) by (simp_all add: f name_matching_def truthy_uid_def)
  next
    assume n: "exact_match L self name = None"
    show "case fuzzy_match L ratio self name 80 of
               m # ms \<Rightarrow>
                 ofac_match (rs ! i) = Some ''fuzzy''
                 \<and> ofac_uid (rs ! i) = Some (match_result.uid m)
                 \<and> source_result.match_score (rs ! i) = Some (match_result.match_score m)
                 \<and> 80 \<le> match_result.match_score m
                 \<and> (\<forall>m' \<in> set ms. match_result.match_score m' \<le> match_result.match_score m)
                 \<and> confidence (rs ! i) =
                     Some (if 85 < match_result.match_score m then ''medium'' else ''low'')
             | [] \<Rightarrow>
                 ofac_match (rs ! i) = Some ''none'' \<and> ofac_uid (rs ! i) = None
                 \<and> source_result.match_score (rs ! i) = None
                 \<and> confidence (rs ! i) = Some ''new_entity''"
    proof (cases "fuzzy_match L ratio self name 80")
      case Nil
      with n assms(3,4) show ?thesis
        by (simp add: f name_matching_def truthy_uid_def)
    next
      case (Cons m ms)
      from fuzzy_match_head [OF Cons] have "80 \<le> match_result.match_score m"
        "\<forall>m' \<in> set ms. match_result.match_score m' \<le> match_result.match_score m" by simp_all
      with Cons n assms(3,4) show ?thesis
        by (simp add: f name_matching_def truthy_uid_def)
    qed
  qed
qed


lemma sample_source_rows:
  "process_new_source sample_lib sample_ratio sample_contains sample sample_source
     (Some ''Name'') (Some ''Country'') = Inr sample_results"
  by (simp only: sample_source_result sample_results_def)

lemma sample_source_names:
  "snd (as_frame sample_source ! 0) ''Name'' = Some (Str (asc ''Ali Hassan''))"
  "snd (as_frame sample_source ! 1) ''Name'' = Some (Str (asc ''Ali Hassen''))"
  "length (as_frame sample_source) = 3"
  by (simp_all add: as_frame_def sample_source_def)

lemma sample_hassen:
  "exact_match sample_lib sample (Str (asc ''Ali Hassan'')) = Some 100"
  "exact_match sample_lib sample (Str (asc ''Ali Hassen'')) = None"
  "fuzzy_match sample_lib sample_ratio sample (Str (asc ''Ali Hassen'')) 80 =
     [\<lparr>match_result.uid = 100, ofac_name = asc ''ALI HASSAN'', input_name = Str (asc ''Ali Hassen''),
       match_score = 90\<rparr>]"
  by code_simp+

theorem process_new_source_verdict_witness:
  "process_new_source sample_lib sample_ratio sample_contains sample sample_source
     (Some ''Name'') (Some ''Country'') = Inr sample_results
   \<and> 0 < length (as_frame sample_source) \<and> 1 < length (as_frame sample_source)
   \<and> ''Name'' \<noteq> []
   \<and> snd (as_frame sample_source ! 0) ''Name'' = Some (Str (asc ''Ali Hassan''))
   \<and> exact_match sample_lib sample (Str (asc ''Ali Hassan'')) = Some 100 \<and> (100::int) \<noteq> 0
   \<and> ofac_match (sample_results ! 0) = Some ''exact''
   \<and> ofac_uid (sample_results ! 0) = Some 100
   \<and> confidence (sample_results ! 0) = Some ''high''
   \<and> source_result.match_score (sample_results ! 0) = None
   \<and> snd (as_frame sample_source ! 1) ''Name'' = Some (Str (asc ''Ali Hassen''))
   \<and> exact_match sample_lib sample (Str (asc ''Ali Hassen'')) = None
   \<and> ofac_match (sample_results ! 1) = Some ''fuzzy''
   \<and> ofac_uid (sample_results ! 1) = Some 100
   \<and> source_result.match_score (sample_results ! 1) = Some 90
   \<and> confidence (sample_results ! 1) = Some ''medium''"
proof -
  have l: "0 < length (as_frame sample_source)" "1 < length (as_frame sample_source)"
    and c: "''Name'' \<noteq> []"
    by (simp_all add: sample_source_names)
  from process_new_source_verdict [OF sample_source_rows l(1) c sample_source_names(1)]
    sample_hassen(1)
  have a: "ofac_match (sample_results ! 0) = Some ''exact''"
    "ofac_uid (sample_results ! 0) = Some 100"
    "confidence (sample_results ! 0) = Some ''high''"
    "source_result.match_score (sample_results ! 0) = None"
    by simp_all
  from process_new_source_verdict [OF sample_source_rows l(2) c sample_source_names(2)]
    sample_hassen(2)
  have "case fuzzy_match sample_lib sample_ratio sample (Str (asc ''Ali Hassen'')) 80 of
               m # ms \<Rightarrow>
                 ofac_match (sample_results ! 1) = Some ''fuzzy''
                 \<and> ofac_uid (sample_results ! 1) = Some (match_result.uid m)
                 \<and> source_result.match_score (sample_results ! 1) = Some (match_result.match_score m)
                 \<and> 80 \<le> match_result.match_score m
                 \<and> (\<forall>m' \<in> set ms. match_result.match_score m' \<le> match_result.match_score m)
                 \<and> confidence (sample_results ! 1) =
                     Some (if 85 < match_result.match_score m then ''medium'' else ''low'')
             | [] \<Rightarrow>
                 ofac_match (sample_results ! 1) = Some ''none'' \<and> ofac_uid (sample_results ! 1) = None
                 \<and> source_result.match_score (sample_results ! 1) = None
                 \<and> confidence (sample_results ! 1) = Some ''new_entity''"
    by blast
  then have b: "ofac_match (sample_results ! 1) = Some ''fuzzy''"
    "ofac_uid (sample_results ! 1) = Some 100"
    "source_result.match_score (sample_results ! 1) = Some 90"
    "confidence (sample_results ! 1) = Some ''medium''"
    by (simp_all add: sample_hassen(3))
  from sample_source_rows l c sample_source_names(1,2) sample_hassen(1,2) a b
  show ?thesis by simp
qed

theorem exact_verdict_has_no_score:
  "exact_match sample_lib sample (Str (asc ''Ali Hassan'')) = Some 100
   \<and> process_new_source sample_lib sample_ratio sample_contains sample
        (Dict [''Name'' \<mapsto> Str (asc ''Ali Hassan'')]) (Some ''Name'') None =
      Inr [\<lparr>source_row = 0, ofac_match = Some ''exact'', ofac_uid = Some 100,
            match_score = None, confidence = Some ''high'', location_matches = None\<rparr>]"
  by code_simp

section \<open>Batch resolution: the exact branch tests the identifier's truth value\<close>

text \<open>
  C10. When \<open>exact_match\<close> returns the identifier 0, neither batch function reports an
  exact verdict: \<open>batch_search_names\<close> goes on to the fuzzy branch (and adds no row
  when fuzzy matching is disabled), and \<open>process_new_source\<close>, for every row of every
  source table and every location column, goes on to fuzzy matching at threshold 80,
  exactly as for a name that is absent from the index.
\<close>

theorem falsy_uid_is_a_miss:
  "exact_match L self name = Some 0 \<longrightarrow>
     batch_search_names L ratio self (name # names) fuzzy t =
       (if fuzzy then
          [case fuzzy_match L ratio self name t of
             m # ms \<Rightarrow>
               \<lparr>batch_row.input_name = name, match_type = ''fuzzy'',
                uid = Some (match_result.uid m), ofac_name = Some (match_result.ofac_name m),
                match_score = match_result.match_score m\<rparr>
           | [] \<Rightarrow>
               \<lparr>batch_row.input_name = name, match_type = ''no_match'', uid = None,
                ofac_name = None, match_score = 0\<rparr>]
        else []) @ batch_search_names L ratio self names fuzzy t
     \<and> (process_new_source L ratio contains self data (Some col) lc = Inr rs
          \<and> i < length (as_frame data) \<and> col \<noteq> [] \<and> snd (as_frame data ! i) col = Some name \<longrightarrow>
          (case fuzzy_match L ratio self name 80 of
             m # ms \<Rightarrow>
               ofac_match (rs ! i) = Some ''fuzzy''
               \<and> ofac_uid (rs ! i) = Some (match_result.uid m)
               \<and> source_result.match_score (rs ! i) = Some (match_result.match_score m)
               \<and> confidence (rs ! i) =
                   Some (if 85 < match_result.match_score m then ''medium'' else ''low'')
           | [] \<Rightarrow>
               ofac_match (rs ! i) = Some ''none'' \<and> ofac_uid (rs ! i) = None
               \<and> source_result.match_score (rs ! i) = None
               \<and> confidence (rs ! i) = Some ''new_entity''))
     \<and> (col \<noteq> [] \<and> row col = Some name \<longrightarrow>
          process_new_source L ratio contains self (Dict row) (Some col) None =
            Inr [case fuzzy_match L ratio self name 80 of
                   m # ms \<Rightarrow>
                     \<lparr>source_row = 0, ofac_match = Some ''fuzzy'',
                      ofac_uid = Some (match_result.uid m),
                      match_score = Some (match_result.match_score m),
                      confidence = Some (if match_result.match_score m > 85 then ''medium'' else ''low''),
                      location_matches = None\<rparr>
                 | [] \<Rightarrow>
                     \<lparr>source_row = 0, ofac_match = Some ''none'', ofac_uid = None,
                      match_score = None, confidence = Some ''new_entity'',
                      location_matches = None\<rparr>])"
proof (intro impI conjI)
  assume z: "exact_match L self name = Some 0"
  then show "batch_search_names L ratio self (name # names) fuzzy t =
       (if fuzzy then
          [case fuzzy_match L ratio self name t of
             m # ms \<Rightarrow>
               \<lparr>batch_row.input_name = name, match_type = ''fuzzy'',
                uid = Some (match_result.uid m), ofac_name = Some (match_result.ofac_name m),
                match_score = match_result.match_score m\<rparr>
           | [] \<Rightarrow>
               \<lparr>batch_row.input_name = name, match_type = ''no_match'', uid = None,
                ofac_name = None, match_score = 0\<rparr>]
        else []) @ batch_search_names L ratio self names fuzzy t"
    by (simp add: truthy_uid_def split: list.splits)
  {
    assume a: "process_new_source L ratio contains self data (Some col) lc = Inr rs
          \<and> i < length (as_frame data) \<and> col \<noteq> [] \<and> snd (as_frame data ! i) col = Some name"
    let ?ir = "as_frame data ! i"
    let ?r0 = "\<lparr>source_row = fst ?ir, ofac_match = None, ofac_uid = None, match_score = None,
           confidence = None, location_matches = None\<rparr>"
    let ?n = "name_matching L ratio self (Some col) (snd ?ir) ?r0"
    from a have "process_row L ratio contains self (Some col) lc ?ir = Inr (rs ! i)"
      using process_new_source_nth by blast
    then have f: "ofac_match (rs ! i) = ofac_match ?n" "ofac_uid (rs ! i) = ofac_uid ?n"
      "source_result.match_score (rs ! i) = source_result.match_score ?n"
      "confidence (rs ! i) = confidence ?n"
      using process_row_name_fields [where L = L and ratio = ratio and contains = contains
        and self = self and nc = "Some col" and lc = lc and ir = ?ir and r = "rs ! i" and ?r0.0 = ?r0]
      by simp_all
    from a z show "case fuzzy_match L ratio self name 80 of
             m # ms \<Rightarrow>
               ofac_match (rs ! i) = Some ''fuzzy''
               \<and> ofac_uid (rs ! i) = Some (match_result.uid m)
               \<and> source_result.match_score (rs ! i) = Some (match_result.match_score m)
               \<and> confidence (rs ! i) =
                   Some (if 85 < match_result.match_score m then ''medium'' else ''low'')
           | [] \<Rightarrow>
               ofac_match (rs ! i) = Some ''none'' \<and> ofac_uid (rs ! i) = None
               \<and> source_result.match_score (rs ! i) = None
               \<and> confidence (rs ! i) = Some ''new_entity''"
      by (simp add: f name_matching_def truthy_uid_def split: list.splits)
  }
  assume "col \<noteq> [] \<and> row col = Some name"
  with z show "process_new_source L ratio contains self (Dict row) (Some col) None =
            Inr [case fuzzy_match L ratio self name 80 of
                   m # ms \<Rightarrow>
                     \<lparr>source_row = 0, ofac_match = Some ''fuzzy'',
                      ofac_uid = Some (match_result.uid m),
                      match_score = Some (match_result.match_score m),
                      confidence = Some (if match_result.match_score m > 85 then ''medium'' else ''low''),
                      location_matches = None\<rparr>
                 | [] \<Rightarrow>
                     \<lparr>source_row = 0, ofac_match = Some ''none'', ofac_uid = None,
                      match_score = None, confidence = Some ''new_entity'',
                      location_matches = None\<rparr>]"
    by (simp add: process_new_source_def as_frame_def process_row_def name_matching_def
          truthy_uid_def split: list.splits)
qed

lemma sample_cedar:
  "exact_match sample_lib sample (Str (asc ''Cedar Trading'')) = Some 0"
  "fuzzy_match sample_lib sample_ratio sample (Str (asc ''Cedar Trading'')) 85 =
     [\<lparr>match_result.uid = 0, ofac_name = asc ''CEDAR TRADING'',
       input_name = Str (asc ''Cedar Trading''), match_score = 100\<rparr>]"
  "fuzzy_match sample_lib sample_ratio sample (Str (asc ''Cedar Trading'')) 80 =
     [\<lparr>match_result.uid = 0, ofac_name = asc ''CEDAR TRADING'',
       input_name = Str (asc ''Cedar Trading''), match_score = 100\<rparr>]"
  by code_simp+

lemma sample_source_zero_rows:
  "process_new_source sample_lib sample_ratio sample_contains sample sample_source_zero
     (Some ''Name'') (Some ''Country'') = Inr sample_results_zero"
  "length (as_frame sample_source_zero) = 2"
  "snd (as_frame sample_source_zero ! 1) ''Name'' = Some (Str (asc ''Cedar Trading''))"
  by code_simp+

theorem falsy_uid_is_a_miss_witness:
  "exact_match sample_lib sample (Str (asc ''Cedar Trading'')) = Some 0
   \<and> batch_search_names sample_lib sample_ratio sample [Str (asc ''Cedar Trading'')] True 85 =
       [\<lparr>batch_row.input_name = Str (asc ''Cedar Trading''), match_type = ''fuzzy'', uid = Some 0,
         ofac_name = Some (asc ''CEDAR TRADING''), match_score = 100\<rparr>]
   \<and> batch_search_names sample_lib sample_ratio sample [Str (asc ''Cedar Trading'')] False 85 = []
   \<and> process_new_source sample_lib sample_ratio sample_contains sample sample_source_zero
         (Some ''Name'') (Some ''Country'') = Inr sample_results_zero
   \<and> 1 < length (as_frame sample_source_zero) \<and> ''Name'' \<noteq> []
   \<and> snd (as_frame sample_source_zero ! 1) ''Name'' = Some (Str (asc ''Cedar Trading''))
   \<and> ofac_match (sample_results_zero ! 1) = Some ''fuzzy''
   \<and> ofac_uid (sample_results_zero ! 1) = Some 0
   \<and> source_result.match_score (sample_results_zero ! 1) = Some 100
   \<and> confidence (sample_results_zero ! 1) = Some ''medium''
   \<and> [''Name'' \<mapsto> Str (asc ''Cedar Trading'')] ''Name'' = Some (Str (asc ''Cedar Trading''))
   \<and> process_new_source sample_lib sample_ratio sample_contains sample
         (Dict [''Name'' \<mapsto> Str (asc ''Cedar Trading'')]) (Some ''Name'') None =
       Inr [\<lparr>source_row = 0, ofac_match = Some ''fuzzy'', ofac_uid = Some 0,
             match_score = Some 100, confidence = Some ''medium'', location_matches = None\<rparr>]"
proof -
  let ?name = "Str (asc ''Cedar Trading'')"
  have h: "''Name'' \<noteq> [] \<and> [''Name'' \<mapsto> ?name] ''Name'' = Some ?name"
    by simp
  have g: "process_new_source sample_lib sample_ratio sample_contains sample sample_source_zero
          (Some ''Name'') (Some ''Country'') = Inr sample_results_zero
          \<and> 1 < length (as_frame sample_source_zero) \<and> ''Name'' \<noteq> []
          \<and> snd (as_frame sample_source_zero ! 1) ''Name'' = Some ?name"
    using sample_source_zero_rows by simp
  note inst = falsy_uid_is_a_miss [where L = sample_lib and self = sample and name = ?name
      and ratio = sample_ratio and names = "[]" and t = 85 and contains = sample_contains
      and data = sample_source_zero and col = "''Name''" and lc = "Some ''Country''"
      and rs = sample_results_zero and i = 1 and row = "[''Name'' \<mapsto> ?name]"]
  from inst [where fuzzy = True] sample_cedar(1) h
  have a: "batch_search_names sample_lib sample_ratio sample [?name] True 85 =
       [\<lparr>batch_row.input_name = ?name, match_type = ''fuzzy'', uid = Some 0,
         ofac_name = Some (asc ''CEDAR TRADING''), match_score = 100\<rparr>]"
    and b: "process_new_source sample_lib sample_ratio sample_contains sample
         (Dict [''Name'' \<mapsto> ?name]) (Some ''Name'') None =
       Inr [\<lparr>source_row = 0, ofac_match = Some ''fuzzy'', ofac_uid = Some 0,
             match_score = Some 100, confidence = Some ''medium'', location_matches = None\<rparr>]"
    by (simp_all add: sample_cedar)
  from inst [where fuzzy = False] sample_cedar(1)
  have c: "batch_search_names sample_lib sample_ratio sample [?name] False 85 = []"
    by simp
  from inst [where fuzzy = True] sample_cedar(1) g
  have "case fuzzy_match sample_lib sample_ratio sample ?name 80 of
             m # ms \<Rightarrow>
               ofac_match (sample_results_zero ! 1) = Some ''fuzzy''
               \<and> ofac_uid (sample_results_zero ! 1) = Some (match_result.uid m)
               \<and> source_result.match_score (sample_results_zero ! 1) = Some (match_result.match_score m)
               \<and> confidence (sample_results_zero ! 1) =
                   Some (if 85 < match_result.match_score m then ''medium'' else ''low'')
           | [] \<Rightarrow>
               ofac_match (sample_results_zero ! 1) = Some ''none'' \<and> ofac_uid (sample_results_zero ! 1) = None
               \<and> source_result.match_score (sample_results_zero ! 1) = None
               \<and> confidence (sample_results_zero ! 1) = Some ''new_entity''"
    by blast
  then have d: "ofac_match (sample_results_zero ! 1) = Some ''fuzzy''"
    "ofac_uid (sample_results_zero ! 1) = Some 0"
    "source_result.match_score (sample_results_zero ! 1) = Some 100"
    "confidence (sample_results_zero ! 1) = Some ''medium''"
    by (simp_all add: sample_cedar(3))
  from sample_cedar(1) a b c d g h show ?thesis by simp
qed

section \<open>Caller errors\<close>

lemma int_body_ok_chars:
  "int_body_ok p b \<Longrightarrow> \<forall>c \<in> set b. is_digit c \<or> c = 95"
  by (induction b arbitrary: p) (auto split: if_splits)

lemma int_body_ok_digit:
  "int_body_ok p b \<Longrightarrow> p \<or> (\<exists>c \<in> set b. is_digit c)"
  by (induction b arbitrary: p) (auto split: if_splits)

lemma mem_dropWhile: "x \<in> set xs \<Longrightarrow> \<not> P x \<Longrightarrow> x \<in> set (dropWhile P xs)"
  by (induction xs) auto

lemma filter_dropWhile:
  "(\<And>x. Q x \<Longrightarrow> \<not> P x) \<Longrightarrow> filter P (dropWhile Q xs) = filter P xs"
  by (induction xs) auto

lemma c_space_not_digit: "c_space c \<Longrightarrow> \<not> is_digit c"
  by (auto simp: c_space_def is_digit_def)

text \<open>The parts of the text that \<open>py_int\<close> reads, named.\<close>

lemma py_int_parts:
  assumes "t = dropWhile c_space (map (to_ascii L) s)"
    and "rest = (if t \<noteq> [] \<and> (hd t = 45 \<or> hd t = 43) then tl t else t)"
    and "body = rev (dropWhile c_space (rev rest))"
  shows "py_int L s =
     (if int_body_ok False body
         \<and> \<not> (0 < int_max_str_digits L \<and> int_max_str_digits L < length (filter is_digit body))
      then Inr (if t \<noteq> [] \<and> hd t = 45 then - int (digits_value 0 body)
                else int (digits_value 0 body))
      else Inl ValueError)"
  using assms by (simp add: py_int_def Let_def)

lemma py_int_bad_char:
  assumes "c \<in> set s" "c < 127" "\<not> is_digit c" "\<not> c_space c" "c \<noteq> 43" "c \<noteq> 45" "c \<noteq> 95"
  shows "py_int L s = Inl ValueError"
proof -
  define t where "t = dropWhile c_space (map (to_ascii L) s)"
  define rest where "rest = (if t \<noteq> [] \<and> (hd t = 45 \<or> hd t = 43) then tl t else t)"
  define body where "body = rev (dropWhile c_space (rev rest))"
  from assms(1,2) have "c \<in> set (map (to_ascii L) s)"
    by (force simp: to_ascii_def)
  with assms(4) have t: "c \<in> set t" unfolding t_def by (intro mem_dropWhile)
  have r: "c \<in> set rest"
  proof (cases "t \<noteq> [] \<and> (hd t = 45 \<or> hd t = 43)")
    case True
    then have "c \<noteq> hd t" using assms(5,6) by auto
    with t True have "c \<in> set (tl t)" by (cases t) auto
    with True show ?thesis by (simp add: rest_def)
  next
    case False
    with t show ?thesis by (auto simp: rest_def)
  qed
  then have "c \<in> set (rev rest)" by simp
  with assms(4) have "c \<in> set (dropWhile c_space (rev rest))" by (intro mem_dropWhile)
  then have "c \<in> set body" by (simp add: body_def)
  then have "\<not> int_body_ok False body"
    using int_body_ok_chars assms(3,7) by blast
  then show ?thesis using py_int_parts [OF t_def rest_def body_def] by simp
qed

lemma py_int_body_subset:
  assumes "t = dropWhile c_space (map (to_ascii L) s)"
    and "rest = (if t \<noteq> [] \<and> (hd t = 45 \<or> hd t = 43) then tl t else t)"
    and "body = rev (dropWhile c_space (rev rest))"
  shows "set body \<subseteq> to_ascii L ` set s"
proof -
  have "set body \<subseteq> set rest"
    unfolding assms(3) using set_dropWhileD by fastforce
  moreover have "set rest \<subseteq> set t" unfolding assms(2) by (cases t) auto
  moreover have "set t \<subseteq> to_ascii L ` set s"
    unfolding assms(1) using set_dropWhileD by fastforce
  ultimately show ?thesis by blast
qed

lemma py_int_no_digit:
  assumes "\<forall>c \<in> set s. \<not> is_digit (to_ascii L c)"
  shows "py_int L s = Inl ValueError"
proof -
  define t where "t = dropWhile c_space (map (to_ascii L) s)"
  define rest where "rest = (if t \<noteq> [] \<and> (hd t = 45 \<or> hd t = 43) then tl t else t)"
  define body where "body = rev (dropWhile c_space (rev rest))"
  have "set body \<subseteq> to_ascii L ` set s"
    using t_def rest_def body_def by (rule py_int_body_subset)
  with assms have "\<forall>c \<in> set body. \<not> is_digit c" by blast
  then have "\<not> int_body_ok False body" using int_body_ok_digit by blast
  then show ?thesis using py_int_parts [OF t_def rest_def body_def] by simp
qed

lemma py_int_too_long:
  assumes "0 < int_max_str_digits L"
    and "int_max_str_digits L < length (filter (\<lambda>c. is_digit (to_ascii L c)) s)"
  shows "py_int L s = Inl ValueError"
proof -
  define t where "t = dropWhile c_space (map (to_ascii L) s)"
  define rest where "rest = (if t \<noteq> [] \<and> (hd t = 45 \<or> hd t = 43) then tl t else t)"
  define body where "body = rev (dropWhile c_space (rev rest))"
  have "filter is_digit t = filter is_digit (map (to_ascii L) s)"
    unfolding t_def by (rule filter_dropWhile) (rule c_space_not_digit)
  moreover have "filter is_digit rest = filter is_digit t"
    unfolding rest_def by (cases t) (auto simp: is_digit_def)
  moreover have "length (filter is_digit body) = length (filter is_digit rest)"
  proof -
    have e: "filter is_digit (dropWhile c_space (rev rest)) = filter is_digit (rev rest)"
      by (rule filter_dropWhile) (rule c_space_not_digit)
    have "length (filter is_digit body) = length (filter is_digit (dropWhile c_space (rev rest)))"
      by (simp add: body_def flip: rev_filter)
    also have "\<dots> = length (filter is_digit (rev rest))" by (simp only: e)
    also have "\<dots> = length (filter is_digit rest)" by (simp flip: rev_filter)
    finally show ?thesis .
  qed
  ultimately have "length (filter is_digit body) = length (filter (\<lambda>c. is_digit (to_ascii L c)) s)"
    by (simp add: filter_map o_def)
  with assms show ?thesis using py_int_parts [OF t_def rest_def body_def] by simp
qed

text \<open>
  C7 (as amended). A uid string that is not numeric makes \<open>get_entity_profile\<close> raise
  \<^verbatim>\<open>ValueError\<close> at once: a string with an ASCII character other than digits, signs,
  underscores and the whitespace that \<^verbatim>\<open>int\<close> skips, a string without any digit, or
  one with more digits than the interpreter's limit. Any conversion error is passed on,
  and a string that converts is looked up like the integer it denotes. A requested name
  or location column that the source row does not have is not reported: the block is
  skipped, and the row's result carries only its label.
\<close>

theorem caller_errors:
  "((\<exists>c \<in> set s. c < 127 \<and> \<not> is_digit c \<and> \<not> c_space c \<and> c \<noteq> 43 \<and> c \<noteq> 45 \<and> c \<noteq> 95)
      \<or> (\<forall>c \<in> set s. \<not> is_digit (to_ascii L c))
      \<or> (0 < int_max_str_digits L
          \<and> int_max_str_digits L < length (filter (\<lambda>c. is_digit (to_ascii L c)) s))
     \<longrightarrow> get_entity_profile L self (UStr s) = Inl ValueError)
   \<and> (py_int L s = Inl e \<longrightarrow> get_entity_profile L self (UStr s) = Inl e)
   \<and> (py_int L s = Inr u \<longrightarrow> get_entity_profile L self (UStr s) = get_entity_profile L self (UInt u))
   \<and> ((\<forall>col. nc = Some col \<longrightarrow> row col = None) \<and> (\<forall>col. lc = Some col \<longrightarrow> row col = None)
     \<longrightarrow> process_row L ratio contains self nc lc (i, row) =
           Inr \<lparr>source_row = i, ofac_match = None, ofac_uid = None, match_score = None,
                confidence = None, location_matches = None\<rparr>)"
proof (intro conjI impI)
  assume "(\<exists>c \<in> set s. c < 127 \<and> \<not> is_digit c \<and> \<not> c_space c \<and> c \<noteq> 43 \<and> c \<noteq> 45 \<and> c \<noteq> 95)
      \<or> (\<forall>c \<in> set s. \<not> is_digit (to_ascii L c))
      \<or> (0 < int_max_str_digits L
          \<and> int_max_str_digits L < length (filter (\<lambda>c. is_digit (to_ascii L c)) s))"
  then have "py_int L s = Inl ValueError"
    using py_int_bad_char py_int_no_digit py_int_too_long by blast
  then show "get_entity_profile L self (UStr s) = Inl ValueError"
    by (simp add: get_entity_profile_def)
next
  assume "py_int L s = Inl e"
  then show "get_entity_profile L self (UStr s) = Inl e"
    by (simp add: get_entity_profile_def)
next
  assume "py_int L s = Inr u"
  then show "get_entity_profile L self (UStr s) = get_entity_profile L self (UInt u)"
    by (simp add: get_entity_profile_def)
next
  assume "(\<forall>col. nc = Some col \<longrightarrow> row col = None) \<and> (\<forall>col. lc = Some col \<longrightarrow> row col = None)"
  then show "process_row L ratio contains self nc lc (i, row) =
           Inr \<lparr>source_row = i, ofac_match = None, ofac_uid = None, match_score = None,
                confidence = None, location_matches = None\<rparr>"
    by (cases nc; cases lc) (simp_all add: process_row_def name_matching_def location_matching_def)
qed

theorem caller_errors_witness:
  "98 \<in> set (asc ''abc'') \<and> (98::nat) < 127 \<and> \<not> is_digit 98 \<and> \<not> c_space 98
   \<and> get_entity_profile sample_lib sample (UStr (asc ''abc'')) = Inl ValueError
   \<and> py_int sample_lib [28, 55] = Inl ValueError
   \<and> get_entity_profile sample_lib sample (UStr [28, 55]) = Inl ValueError
   \<and> py_int sample_lib (asc ''1__0'') = Inl ValueError
   \<and> get_entity_profile sample_lib sample (UStr (asc ''1__0'')) = Inl ValueError
   \<and> py_int sample_lib (asc '' 100'' @ [160]) = Inr 100
   \<and> get_entity_profile sample_lib sample (UStr (asc '' 100'' @ [160])) =
       get_entity_profile sample_lib sample (UInt 100)
   \<and> [''Name'' \<mapsto> Str (asc ''Ali Hassan'')] ''FullName'' = None
   \<and> [''Name'' \<mapsto> Str (asc ''Ali Hassan'')] ''Place'' = None
   \<and> process_row sample_lib sample_ratio sample_contains sample (Some ''FullName'') (Some ''Place'')
         (5, [''Name'' \<mapsto> Str (asc ''Ali Hassan'')]) =
       Inr \<lparr>source_row = 5, ofac_match = None, ofac_uid = None, match_score = None,
            confidence = None, location_matches = None\<rparr>"
proof -
  have h1: "98 \<in> set (asc ''abc'')" "(98::nat) < 127" "\<not> is_digit 98" "\<not> c_space 98"
    by (simp_all add: is_digit_def c_space_def asc_def)
  then have h1': "(\<exists>c \<in> set (asc ''abc''). c < 127 \<and> \<not> is_digit c \<and> \<not> c_space c \<and> c \<noteq> 43 \<and> c \<noteq> 45 \<and> c \<noteq> 95)
      \<or> (\<forall>c \<in> set (asc ''abc''). \<not> is_digit (to_ascii sample_lib c))
      \<or> (0 < int_max_str_digits sample_lib
          \<and> int_max_str_digits sample_lib
              < length (filter (\<lambda>c. is_digit (to_ascii sample_lib c)) (asc ''abc'')))"
    by (intro disjI1 bexI [of _ 98]) simp_all
  have h2: "py_int sample_lib [28, 55] = Inl ValueError" by code_simp
  have h2': "py_int sample_lib (asc ''1__0'') = Inl ValueError" by code_simp
  have h3: "py_int sample_lib (asc '' 100'' @ [160]) = Inr 100" by code_simp
  have h4: "[''Name'' \<mapsto> Str (asc ''Ali Hassan'')] ''FullName'' = None"
    "[''Name'' \<mapsto> Str (asc ''Ali Hassan'')] ''Place'' = None"
    by simp_all
  from caller_errors [where s = "asc ''abc''" and self = sample and L = sample_lib] h1'
  have c1: "get_entity_profile sample_lib sample (UStr (asc ''abc'')) = Inl ValueError" by blast
  from caller_errors [where s = "[28, 55]" and self = sample and L = sample_lib and e = ValueError] h2
  have c2: "get_entity_profile sample_lib sample (UStr [28, 55]) = Inl ValueError" by blast
  from caller_errors [where s = "asc ''1__0''" and self = sample and L = sample_lib and e = ValueError] h2'
  have c2': "get_entity_profile sample_lib sample (UStr (asc ''1__0'')) = Inl ValueError" by blast
  from caller_errors [where s = "asc '' 100'' @ [160]" and self = sample and L = sample_lib and u = 100] h3
  have c3: "get_entity_profile sample_lib sample (UStr (asc '' 100'' @ [160])) =
       get_entity_profile sample_lib sample (UInt 100)"
    by blast
  from caller_errors [where nc = "Some ''FullName''" and lc = "Some ''Place''"
      and row = "[''Name'' \<mapsto> Str (asc ''Ali Hassan'')]" and ratio = sample_ratio
      and contains = sample_contains and self = sample and L = sample_lib and i = 5] h4
  have c4: "process_row sample_lib sample_ratio sample_contains sample (Some ''FullName'') (Some ''Place'')
         (5, [''Name'' \<mapsto> Str (asc ''Ali Hassan'')]) =
       Inr \<lparr>source_row = 5, ofac_match = None, ofac_uid = None, match_score = None,
            confidence = None, location_matches = None\<rparr>"
    by simp
  from h1 h2 h2' h3 h4 c1 c2 c2' c3 c4 show ?thesis by simp
qed

theorem missing_column_not_reported:
  "process_new_source sample_lib sample_ratio sample_contains sample sample_source
     (Some ''FullName'') (Some ''Place'') =
     Inr [\<lparr>source_row = 0, ofac_match = None, ofac_uid = None, match_score = None,
           confidence = None, location_matches = None\<rparr>,
          \<lparr>source_row = 1, ofac_match = None, ofac_uid = None, match_score = None,
           confidence = None, location_matches = None\<rparr>,
          \<lparr>source_row = 2, ofac_match = None, ofac_uid = None, match_score = None,
           confidence = None, location_matches = None\<rparr>]"
  by code_simp

section \<open>Batch resolution: the location count\<close>

lemma search_by_location_country:
  "search_by_location contains self (Some location) None =
     (if truthy_cell (Some location)
      then str_contains contains location address_row.country (integrator.addresses self)
      else Inr (integrator.addresses self))"
  by (simp add: search_by_location_def split: sum.splits)

text \<open>
  C8 (as amended). For every row for which a location column is supplied and present,
  the location lookup is run on the country field of the address table with the row's
  location (an empty location selects every address; otherwise the addresses whose
  country matches, a missing country never matching). When the lookup finds at least
  one address, the count is attached to the row's result; when it finds none, nothing is
  attached. Apart from the count, the row's result is the one obtained without the
  location column, so the name-match verdict, identifier, score and confidence are not
  altered. A lookup that raises ends the call with that error.
\<close>

theorem location_count:
  assumes "lcol \<noteq> []" and "row lcol = Some location"
  shows "\<exists>r0. process_row L ratio contains self nc None (i, row) = Inr r0
           \<and> location_matches r0 = None
           \<and> (\<forall>ms. search_by_location contains self (Some location) None = Inr ms \<longrightarrow>
                 process_row L ratio contains self nc (Some lcol) (i, row) =
                   Inr (r0\<lparr>location_matches :=
                              if 0 < length ms then Some (length ms) else None\<rparr>))
           \<and> (\<forall>e. search_by_location contains self (Some location) None = Inl e \<longrightarrow>
                 process_row L ratio contains self nc (Some lcol) (i, row) = Inl e)
           \<and> (\<forall>m. truthy_cell (Some location) \<and> contains location = Inr m \<longrightarrow>
                 search_by_location contains self (Some location) None =
                   Inr (filter (\<lambda>a. case address_row.country a of None \<Rightarrow> False | Some s \<Rightarrow> m s)
                          (integrator.addresses self)))
           \<and> (\<not> truthy_cell (Some location) \<longrightarrow>
                 search_by_location contains self (Some location) None =
                   Inr (integrator.addresses self))"
proof -
  let ?r0 = "name_matching L ratio self nc row
               \<lparr>source_row = i, ofac_match = None, ofac_uid = None, match_score = None,
                confidence = None, location_matches = None\<rparr>"
  have a: "process_row L ratio contains self nc None (i, row) = Inr ?r0"
    by (simp add: process_row_def)
  have b: "location_matches ?r0 = None"
    by (simp add: name_matching_keeps)
  have c: "process_row L ratio contains self nc (Some lcol) (i, row) =
             Inr (?r0\<lparr>location_matches := if 0 < length ms then Some (length ms) else None\<rparr>)"
    if "search_by_location contains self (Some location) None = Inr ms" for ms
  proof (cases "0 < length ms")
    case True
    with that assms show ?thesis by (simp add: process_row_def location_matching_def)
  next
    case False
    have "?r0\<lparr>location_matches := None\<rparr> = ?r0" using b by simp
    with False that assms show ?thesis by (simp add: process_row_def location_matching_def)
  qed
  have d: "process_row L ratio contains self nc (Some lcol) (i, row) = Inl e"
    if "search_by_location contains self (Some location) None = Inl e" for e
    using that assms by (simp add: process_row_def location_matching_def)
  have e: "search_by_location contains self (Some location) None =
             Inr (filter (\<lambda>a. case address_row.country a of None \<Rightarrow> False | Some s \<Rightarrow> m s)
                    (integrator.addresses self))"
    if "truthy_cell (Some location) \<and> contains location = Inr m" for m
    using that by (simp add: search_by_location_country str_contains_def)
  have f: "search_by_location contains self (Some location) None = Inr (integrator.addresses self)"
    if "\<not> truthy_cell (Some location)"
    using that by (simp add: search_by_location_country)
  from a b c d e f show ?thesis by blast
qed

theorem location_count_witness:
  "''Country'' \<noteq> []
   \<and> [''Name'' \<mapsto> Str (asc ''Ali Hassen''), ''Country'' \<mapsto> Str (asc ''lebanon'')] ''Country'' = Some (Str (asc ''lebanon''))
   \<and> truthy_cell (Some (Str (asc ''lebanon'')))
   \<and> search_by_location sample_contains sample (Some (Str (asc ''lebanon''))) None =
       Inr [sample_addresses ! 0]
   \<and> process_row sample_lib sample_ratio sample_contains sample (Some ''Name'') None
         (1, [''Name'' \<mapsto> Str (asc ''Ali Hassen''), ''Country'' \<mapsto> Str (asc ''lebanon'')]) =
       Inr \<lparr>source_row = 1, ofac_match = Some ''fuzzy'', ofac_uid = Some 100,
            match_score = Some 90, confidence = Some ''medium'', location_matches = None\<rparr>
   \<and> process_row sample_lib sample_ratio sample_contains sample (Some ''Name'') (Some ''Country'')
         (1, [''Name'' \<mapsto> Str (asc ''Ali Hassen''), ''Country'' \<mapsto> Str (asc ''lebanon'')]) =
       Inr \<lparr>source_row = 1, ofac_match = Some ''fuzzy'', ofac_uid = Some 100,
            match_score = Some 90, confidence = Some ''medium'', location_matches = Some 1\<rparr>"
proof -
  let ?row = "[''Name'' \<mapsto> Str (asc ''Ali Hassen''), ''Country'' \<mapsto> Str (asc ''lebanon'')]"
  have h1: "''Country'' \<noteq> []" and h2: "?row ''Country'' = Some (Str (asc ''lebanon''))"
    and h3: "truthy_cell (Some (Str (asc ''lebanon'')))"
    by (simp_all add: truthy_cell_def asc_def)
  have s: "search_by_location sample_contains sample (Some (Str (asc ''lebanon''))) None =
             Inr [sample_addresses ! 0]"
    by code_simp
  have ev: "process_row sample_lib sample_ratio sample_contains sample (Some ''Name'') None (1, ?row) =
       Inr \<lparr>source_row = 1, ofac_match = Some ''fuzzy'', ofac_uid = Some 100,
            match_score = Some 90, confidence = Some ''medium'', location_matches = None\<rparr>"
    by code_simp
  from location_count [where lcol = "''Country''" and row = ?row and location = "Str (asc ''lebanon'')"
      and L = sample_lib and ratio = sample_ratio and contains = sample_contains
      and self = sample and nc = "Some ''Name''" and i = 1, OF h1 h2]
  obtain r0 where a: "process_row sample_lib sample_ratio sample_contains sample (Some ''Name'') None (1, ?row) = Inr r0"
    and c: "\<forall>ms. search_by_location sample_contains sample (Some (Str (asc ''lebanon''))) None = Inr ms \<longrightarrow>
                 process_row sample_lib sample_ratio sample_contains sample (Some ''Name'') (Some ''Country'') (1, ?row) =
                   Inr (r0\<lparr>location_matches := if 0 < length ms then Some (length ms) else None\<rparr>)"
    by blast
  from a ev have r0: "r0 = \<lparr>source_row = 1, ofac_match = Some ''fuzzy'', ofac_uid = Some 100,
            match_score = Some 90, confidence = Some ''medium'', location_matches = None\<rparr>"
    by simp
  from c s have "process_row sample_lib sample_ratio sample_contains sample (Some ''Name'') (Some ''Country'') (1, ?row) =
      Inr (r0\<lparr>location_matches := Some 1\<rparr>)"
    by simp
  then have l: "process_row sample_lib sample_ratio sample_contains sample (Some ''Name'') (Some ''Country'') (1, ?row) =
       Inr \<lparr>source_row = 1, ofac_match = Some ''fuzzy'', ofac_uid = Some 100,
            match_score = Some 90, confidence = Some ''medium'', location_matches = Some 1\<rparr>"
    by (simp add: r0)
  from h1 h2 h3 s ev l show ?thesis by simp
qed

theorem no_count_without_match:
  "search_by_location sample_contains sample (Some (Str (asc ''Brazil''))) None = Inr []
   \<and> process_new_source sample_lib sample_ratio sample_contains sample
        (Dict [''Name'' \<mapsto> Str (asc ''Ali Hassan''), ''Country'' \<mapsto> Str (asc ''Brazil'')])
        (Some ''Name'') (Some ''Country'') =
      Inr [\<lparr>source_row = 0, ofac_match = Some ''exact'', ofac_uid = Some 100,
            match_score = None, confidence = Some ''high'', location_matches = None\<rparr>]"
  by code_simp

end
